theory Spec2Isabelle
  imports Complex_Main
begin

section \<open>Data model (app/models)\<close>

text \<open>
  The tables of the application, one record per SQLAlchemy model. Columns that no
  service function reads (names, descriptions, audit timestamps, formatted messages)
  are left out. \<open>Float\<close> columns are modelled as exact reals, \<open>DateTime\<close> columns as
  integer microseconds since the epoch (the resolution of Python's \<open>datetime\<close>), and
  nullable columns as options. Status columns are free strings, as in the source.

  \<open>printers\<close> is keyed by the primary key \<open>Printer.id\<close> and \<open>spools\<close> by the unique
  column \<open>Spool.spool_id\<close>; jobs, alerts and failure events are kept in insertion order
  because the services scan them.
\<close>

type_synonym timestamp = int

record printer =
  printer_status :: string
  printer_is_active :: bool

record spool =
  total_weight_g :: real
  remaining_weight_g :: real
  usage_percentage :: real
  spool_is_active :: bool
  is_low_inventory :: bool

record print_job =
  job_pk :: int
  job_id :: string
  printer_id :: int
  status :: string
  start_time :: "timestamp option"
  end_time :: "timestamp option"
  estimated_time_min :: "int option"
  actual_time_min :: "int option"
  material_g :: "real option"
  spool_id :: "string option"
  progress_percentage :: "real option"
  current_layer :: "int option"

record failure_event =
  fe_job_id :: int
  failure_type :: string
  confidence_score :: real
  image_path :: string

record inventory_alert =
  alert_pk :: int
  alert_spool_id :: string
  alert_type :: string
  threshold_percentage :: real
  current_percentage :: real
  is_resolved :: bool

record db =
  printers :: "int \<rightharpoonup> printer"
  spools :: "string \<rightharpoonup> spool"
  jobs :: "print_job list"
  alerts :: "inventory_alert list"
  failure_events :: "failure_event list"

text \<open>
  A SQLAlchemy session: the committed database and the pending one that the running
  operation reads and writes. \<open>commit\<close> makes the pending state the committed one,
  \<open>rollback\<close> throws the pending writes away. The session factory is configured in
  \<open>app/db/base.py\<close>; the model takes SQLAlchemy's default, in which a query flushes the
  pending writes first and therefore sees them. A request starts with nothing pending.
\<close>

type_synonym session = "db \<times> db"

definition commit :: "session \<Rightarrow> session" where
  "commit ss = (snd ss, snd ss)"

definition rollback :: "session \<Rightarrow> session" where
  "rollback ss = (fst ss, fst ss)"

subsection \<open>Python idioms\<close>

text \<open>Truthiness of an optional string: \<open>None\<close> and the empty string are falsy.\<close>

definition truthy_str :: "string option \<Rightarrow> string option" where
  "truthy_str s = (case s of None \<Rightarrow> None | Some v \<Rightarrow> if v = [] then None else Some v)"

text \<open>Truthiness of an optional float: \<open>None\<close> and \<open>0.0\<close> are falsy.\<close>

definition truthy_real :: "real option \<Rightarrow> real option" where
  "truthy_real x = (case x of None \<Rightarrow> None | Some v \<Rightarrow> if v = 0 then None else Some v)"

text \<open>\<open>x or 0.0\<close>.\<close>

definition or_zero :: "real option \<Rightarrow> real" where
  "or_zero x = (case x of None \<Rightarrow> 0 | Some v \<Rightarrow> v)"

text \<open>\<open>int(a / b)\<close> for a positive divisor: Python's \<open>int\<close> truncates towards zero.\<close>

definition int_trunc_div :: "int \<Rightarrow> int \<Rightarrow> int" where
  "int_trunc_div a b = (if 0 \<le> a then a div b else - ((- a) div b))"

text \<open>The next value of an autoincrement primary key.\<close>

definition next_pk :: "int list \<Rightarrow> int" where
  "next_pk ks = fold max ks 0 + 1"

section \<open>InventoryService (app/services/inventory_service.py)\<close>

definition ensure_alert ::
  "string \<Rightarrow> string \<Rightarrow> real option \<Rightarrow> real option \<Rightarrow> db \<Rightarrow> db" where
  "ensure_alert sid ty threshold current w =
     (case find (\<lambda>a. alert_spool_id a = sid \<and> alert_type a = ty \<and> \<not> is_resolved a) (alerts w) of
        Some existing \<Rightarrow> w
      | None \<Rightarrow>
          w\<lparr>alerts := alerts w @
            [\<lparr>alert_pk = next_pk (map alert_pk (alerts w)), alert_spool_id = sid,
              alert_type = ty, threshold_percentage = or_zero threshold,
              current_percentage = or_zero current, is_resolved = False\<rparr>]\<rparr>)"

definition create_inventory_alert :: "real \<Rightarrow> string \<Rightarrow> real \<Rightarrow> db \<Rightarrow> db" where
  "create_inventory_alert alert_threshold sid remaining_percentage w =
     w\<lparr>alerts := alerts w @
       [\<lparr>alert_pk = next_pk (map alert_pk (alerts w)), alert_spool_id = sid,
         alert_type = ''low_inventory'', threshold_percentage = alert_threshold,
         current_percentage = remaining_percentage, is_resolved = False\<rparr>]\<rparr>"

text \<open>The body of the loop over the jobs printing from the spool.\<close>

definition check_active_job :: "string \<Rightarrow> real \<Rightarrow> print_job \<Rightarrow> db \<Rightarrow> db" where
  "check_active_job sid remaining job w =
     (case material_g job of
        None \<Rightarrow> w
      | Some m \<Rightarrow>
          let progress = or_zero (progress_percentage job);
              remaining_needed = max 0 (m * (1 - progress / 100))
          in if remaining < remaining_needed
             then ensure_alert sid ''insufficient_material'' None None w
             else w)"

text \<open>
  \<open>update_spool_usage\<close>. A spool whose \<open>total_weight_g\<close> is zero makes the division
  raise \<open>ZeroDivisionError\<close>; the handler rolls the session back and returns \<open>False\<close>.
\<close>

definition update_spool_usage :: "real \<Rightarrow> string \<Rightarrow> real \<Rightarrow> session \<Rightarrow> bool \<times> session" where
  "update_spool_usage alert_threshold sid material_used_g ss =
     (case spools (snd ss) sid of
        None \<Rightarrow> (False, ss)
      | Some sp \<Rightarrow>
          let remaining = max 0 (remaining_weight_g sp - material_used_g)
          in if total_weight_g sp = 0 then (False, rollback ss)
             else
               let remaining_percentage = remaining / total_weight_g sp;
                   was_low = is_low_inventory sp;
                   low = (remaining_percentage \<le> alert_threshold);
                   sp' = sp\<lparr>remaining_weight_g := remaining,
                           usage_percentage := (total_weight_g sp - remaining) / total_weight_g sp,
                           is_low_inventory := low\<rparr>;
                   w1 = (snd ss)\<lparr>spools := (spools (snd ss))(sid \<mapsto> sp')\<rparr>;
                   w2 = (if low \<and> \<not> was_low
                         then create_inventory_alert alert_threshold sid remaining_percentage w1
                         else w1);
                   active_jobs = filter (\<lambda>j. spool_id j = Some sid \<and> status j = ''printing'') (jobs w2);
                   w3 = fold (check_active_job sid remaining) active_jobs w2
               in (True, commit (fst ss, w3)))"

fun resolve_first :: "int \<Rightarrow> inventory_alert list \<Rightarrow> inventory_alert list" where
  "resolve_first aid [] = []"
| "resolve_first aid (a # as) =
     (if alert_pk a = aid then a\<lparr>is_resolved := True\<rparr> # as else a # resolve_first aid as)"

definition resolve_alert :: "int \<Rightarrow> db \<Rightarrow> bool \<times> db" where
  "resolve_alert aid d =
     (case find (\<lambda>a. alert_pk a = aid) (alerts d) of
        Some alert \<Rightarrow> (True, d\<lparr>alerts := resolve_first aid (alerts d)\<rparr>)
      | None \<Rightarrow> (False, d))"

text \<open>
  \<open>create_spool\<close>: inserting a second spool with the same \<open>spool_id\<close> violates the
  unique constraint; the handler rolls back and returns \<open>False\<close>.
\<close>

definition create_spool :: "string \<Rightarrow> real \<Rightarrow> db \<Rightarrow> bool \<times> db" where
  "create_spool sid weight d =
     (case spools d sid of
        Some existing \<Rightarrow> (False, d)
      | None \<Rightarrow>
          (True, d\<lparr>spools := (spools d)(sid \<mapsto>
             \<lparr>total_weight_g = weight, remaining_weight_g = weight, usage_percentage = 0,
              spool_is_active = True, is_low_inventory = False\<rparr>)\<rparr>))"

section \<open>FailureDetector (app/services/failure_detection.py)\<close>

text \<open>
  The image heuristics are outside the model: a frame is represented by what they
  return, the list of (failure type, confidence) pairs in the order the detector builds
  it, or by the reason no list was produced.
\<close>

datatype frame = Image_load_error | Detection_error | Scores "(string \<times> real) list"

definition highest_confidence :: "(string \<times> real) list \<Rightarrow> real \<times> string" where
  "highest_confidence results =
     fold (\<lambda>(failure_type_name, confidence) (max_confidence, ftype).
             if confidence > max_confidence then (confidence, failure_type_name)
             else (max_confidence, ftype))
          results (0, ''none'')"

definition detect_failure :: "real \<Rightarrow> frame \<Rightarrow> bool \<times> real \<times> string" where
  "detect_failure threshold fr =
     (case fr of
        Image_load_error \<Rightarrow> (False, 0, ''image_load_error'')
      | Detection_error \<Rightarrow> (False, 0, ''detection_error'')
      | Scores results \<Rightarrow>
          (case highest_confidence results of
             (max_confidence, ftype) \<Rightarrow>
               (max_confidence > threshold, max_confidence, ftype)))"

section \<open>JobService (app/services/job_service.py)\<close>

text \<open>
  The reasons a job operation reports before it returns \<open>False\<close> or \<open>None\<close>, one per
  message of the source. \<open>Storage_error\<close> stands for a constraint violation raised by
  the database, which the handlers answer with a rollback.
\<close>

datatype error =
    Job_not_found
  | Job_not_queued
  | Printer_not_found
  | Printer_not_available
  | Printer_occupied
  | Spool_not_found
  | Spool_not_found_or_inactive
  | Insufficient_material
  | Spool_in_use
  | Only_queued_deletable
  | Storage_error

definition get_job :: "db \<Rightarrow> string \<Rightarrow> print_job option" where
  "get_job d jid = find (\<lambda>j. job_id j = jid) (jobs d)"

text \<open>Writing to the row that \<open>get_job\<close> returned.\<close>

fun upd_job :: "string \<Rightarrow> (print_job \<Rightarrow> print_job) \<Rightarrow> print_job list \<Rightarrow> print_job list" where
  "upd_job jid f [] = []"
| "upd_job jid f (j # js) = (if job_id j = jid then f j # js else j # upd_job jid f js)"

fun del_job :: "string \<Rightarrow> print_job list \<Rightarrow> print_job list" where
  "del_job jid [] = []"
| "del_job jid (j # js) = (if job_id j = jid then js else j # del_job jid js)"

definition set_printer_status :: "int \<Rightarrow> string \<Rightarrow> db \<Rightarrow> db" where
  "set_printer_status pid st w =
     (case printers w pid of
        None \<Rightarrow> w
      | Some printer \<Rightarrow> w\<lparr>printers := (printers w)(pid \<mapsto> printer\<lparr>printer_status := st\<rparr>)\<rparr>)"

text \<open>
  \<open>create_job\<close>. \<open>new_job_id\<close> is the code drawn from \<open>uuid4\<close>; a code already in the
  table violates the unique constraint.
\<close>

definition create_job ::
  "string \<Rightarrow> int \<Rightarrow> int option \<Rightarrow> real option \<Rightarrow> string option \<Rightarrow> db \<Rightarrow> (error + print_job) \<times> db" where
  "create_job new_job_id pid estimated material sp_id d =
     (case printers d pid of
        None \<Rightarrow> (Inl Printer_not_found, d)
      | Some printer \<Rightarrow>
          if printer_status printer \<noteq> ''idle'' \<or> \<not> printer_is_active printer
          then (Inl Printer_not_available, d)
          else if (case truthy_str sp_id of None \<Rightarrow> False | Some sid \<Rightarrow> spools d sid = None)
          then (Inl Spool_not_found, d)
          else if get_job d new_job_id \<noteq> None then (Inl Storage_error, d)
          else
            let job = \<lparr>job_pk = next_pk (map job_pk (jobs d)), job_id = new_job_id,
                       printer_id = pid, status = ''queued'', start_time = None, end_time = None,
                       estimated_time_min = estimated, actual_time_min = None,
                       material_g = material, spool_id = sp_id,
                       progress_percentage = Some 0, current_layer = Some 0\<rparr>
            in (Inr job, d\<lparr>jobs := jobs d @ [job]\<rparr>))"

definition start_job :: "timestamp \<Rightarrow> string \<Rightarrow> db \<Rightarrow> (error + unit) \<times> db" where
  "start_job now jid d =
     (case get_job d jid of
        None \<Rightarrow> (Inl Job_not_found, d)
      | Some job \<Rightarrow>
          if status job \<noteq> ''queued'' then (Inl Job_not_queued, d)
          else
            (case printers d (printer_id job) of
               None \<Rightarrow> (Inl Printer_not_found, d)
             | Some printer \<Rightarrow>
                 if printer_status printer = ''printing'' then (Inl Printer_occupied, d)
                 else
                   let spool_failure =
                     (case truthy_str (spool_id job) of
                        None \<Rightarrow> None
                      | Some sid \<Rightarrow>
                          (case spools d sid of
                             None \<Rightarrow> Some (Spool_not_found_or_inactive, d)
                           | Some sp \<Rightarrow>
                               if \<not> spool_is_active sp then Some (Spool_not_found_or_inactive, d)
                               else if (case material_g job of None \<Rightarrow> False
                                        | Some m \<Rightarrow> remaining_weight_g sp < m)
                               then Some (Insufficient_material,
                                          ensure_alert sid ''insufficient_material'' None None d)
                               else
                                 (case find (\<lambda>j. spool_id j = Some sid \<and> status j = ''printing'') (jobs d) of
                                    Some in_use \<Rightarrow> Some (Spool_in_use, d)
                                  | None \<Rightarrow> None)))
                   in (case spool_failure of
                        Some (e, d') \<Rightarrow> (Inl e, d')
                      | None \<Rightarrow>
                          let w1 = d\<lparr>jobs := upd_job jid
                                     (\<lambda>j. j\<lparr>status := ''printing'', start_time := Some now\<rparr>) (jobs d)\<rparr>;
                              w2 = set_printer_status (printer_id job) ''printing'' w1;
                              w3 = (case truthy_str (spool_id job) of
                                      None \<Rightarrow> w2
                                    | Some sid \<Rightarrow>
                                        (case truthy_real (material_g job) of
                                           None \<Rightarrow> w2
                                         | Some m \<Rightarrow>
                                             (case spools w2 sid of
                                                None \<Rightarrow> w2
                                              | Some sp \<Rightarrow>
                                                  if remaining_weight_g sp < m
                                                  then ensure_alert sid ''insufficient_material'' None None w2
                                                  else w2)))
                          in (Inr (), w3))))"

definition update_job_progress ::
  "real \<Rightarrow> string \<Rightarrow> real \<Rightarrow> int option \<Rightarrow> db \<Rightarrow> bool \<times> db" where
  "update_job_progress alert_threshold jid progress layer d =
     (case get_job d jid of
        None \<Rightarrow> (False, d)
      | Some job \<Rightarrow>
          let previous_progress = or_zero (progress_percentage job);
              new_progress = max 0 (min 100 progress);
              delta = new_progress - previous_progress;
              w =
                (if delta > 0 then
                   (case truthy_str (spool_id job) of
                      None \<Rightarrow> d
                    | Some sid \<Rightarrow>
                        (case truthy_real (material_g job) of
                           None \<Rightarrow> d
                         | Some m \<Rightarrow>
                             let material_used_delta = m * (delta / 100);
                                 w1 = snd (snd (update_spool_usage alert_threshold sid
                                                  material_used_delta (d, d)))
                             in (case spools w1 sid of
                                   None \<Rightarrow> w1
                                 | Some sp \<Rightarrow>
                                     let remaining_needed = max 0 (m * (1 - new_progress / 100))
                                     in if remaining_weight_g sp < remaining_needed
                                        then ensure_alert sid ''insufficient_material'' None None w1
                                        else w1)))
                 else d)
          in (True, w\<lparr>jobs := upd_job jid
                 (\<lambda>j. j\<lparr>progress_percentage := Some new_progress,
                         current_layer := (case layer of None \<Rightarrow> current_layer j
                                           | Some l \<Rightarrow> Some l)\<rparr>) (jobs w)\<rparr>))"

definition complete_job :: "real \<Rightarrow> timestamp \<Rightarrow> string \<Rightarrow> bool \<Rightarrow> db \<Rightarrow> bool \<times> db" where
  "complete_job alert_threshold now jid success d =
     (case get_job d jid of
        None \<Rightarrow> (False, d)
      | Some job \<Rightarrow>
          let w1 = d\<lparr>jobs := upd_job jid
                     (\<lambda>j. j\<lparr>status := (if success then ''completed'' else ''failed''),
                             end_time := Some now,
                             actual_time_min :=
                               (case start_time j of
                                  None \<Rightarrow> actual_time_min j
                                | Some st \<Rightarrow> Some (int_trunc_div (now - st) 60000000))\<rparr>)
                     (jobs d)\<rparr>;
              w2 = set_printer_status (printer_id job) ''idle'' w1;
              ss =
                (if success then
                   (case truthy_str (spool_id job) of
                      None \<Rightarrow> (d, w2)
                    | Some sid \<Rightarrow>
                        (case truthy_real (material_g job) of
                           None \<Rightarrow> (d, w2)
                         | Some m \<Rightarrow>
                             let used_so_far = or_zero (progress_percentage job) / 100 * m;
                                 remaining = max 0 (m - used_so_far)
                             in if remaining > 0
                                then snd (update_spool_usage alert_threshold sid remaining (d, w2))
                                else (d, w2)))
                 else (d, w2))
          in (True, snd (commit ss)))"

definition detect_failure_from_image ::
  "real \<Rightarrow> real \<Rightarrow> timestamp \<Rightarrow> string \<Rightarrow> string \<Rightarrow> frame \<Rightarrow> db \<Rightarrow> failure_event option \<times> db" where
  "detect_failure_from_image alert_threshold threshold now jid path fr d =
     (case get_job d jid of
        None \<Rightarrow> (None, d)
      | Some job \<Rightarrow>
          (case detect_failure threshold fr of
             (is_failure, confidence, ftype) \<Rightarrow>
               if is_failure then
                 let w =
                       (case truthy_str (spool_id job) of
                          None \<Rightarrow> d
                        | Some sid \<Rightarrow>
                            (case truthy_real (material_g job) of
                               None \<Rightarrow> d
                             | Some m \<Rightarrow>
                                 let total_minutes =
                                       (case estimated_time_min job of
                                          None \<Rightarrow> 60
                                        | Some t \<Rightarrow> if t = 0 then 60 else t);
                                     seconds_total = max (total_minutes * 60) 1;
                                     elapsed_s =
                                       (case start_time job of
                                          None \<Rightarrow> 30
                                        | Some st \<Rightarrow> int_trunc_div (now - st) 1000000);
                                     window_s = min 30 (max elapsed_s 0);
                                     used_g = (m * real_of_int window_s) / real_of_int seconds_total
                                 in if used_g > 0
                                    then snd (snd (update_spool_usage alert_threshold sid used_g (d, d)))
                                    else d));
                     event = \<lparr>fe_job_id = job_pk job, failure_type = ftype,
                              confidence_score = confidence, image_path = path\<rparr>;
                     w1 = w\<lparr>failure_events := failure_events w @ [event]\<rparr>;
                     w2 = w1\<lparr>jobs := upd_job jid
                             (\<lambda>j. j\<lparr>status := ''failed'', end_time := Some now\<rparr>) (jobs w1)\<rparr>;
                     w3 = set_printer_status (printer_id job) ''error'' w2;
                     w4 = (case truthy_str (spool_id job) of
                             None \<Rightarrow> w3
                           | Some sid \<Rightarrow>
                               (case spools w3 sid of
                                  None \<Rightarrow> w3
                                | Some sp \<Rightarrow>
                                    w3\<lparr>spools := (spools w3)(sid \<mapsto> sp\<lparr>spool_is_active := False\<rparr>)\<rparr>))
                 in (Some event, w4)
               else (None, d)))"

text \<open>
  \<open>delete_job\<close>. Failure events reference their job through a non-nullable foreign
  key, so deleting a job that still has events is refused by the database.
\<close>

definition delete_job :: "string \<Rightarrow> db \<Rightarrow> (error + unit) \<times> db" where
  "delete_job jid d =
     (case get_job d jid of
        None \<Rightarrow> (Inl Job_not_found, d)
      | Some job \<Rightarrow>
          if status job \<noteq> ''queued'' then (Inl Only_queued_deletable, d)
          else if find (\<lambda>e. fe_job_id e = job_pk job) (failure_events d) \<noteq> None
          then (Inl Storage_error, d)
          else (Inr (), d\<lparr>jobs := del_job jid (jobs d)\<rparr>))"

section \<open>Endpoints that write directly (app/api/v1/endpoints)\<close>

text \<open>
  \<open>activate_spool\<close> and \<open>deactivate_spool\<close> of the inventory endpoints set
  \<open>spool.is_active\<close> on an existing spool and commit; an unknown spool is answered with
  404 and nothing is written. \<open>update_printer_status\<close> of the printer endpoints does the
  same for \<open>printer.status\<close>, which is \<open>set_printer_status\<close> above.
\<close>

definition set_spool_active :: "string \<Rightarrow> bool \<Rightarrow> db \<Rightarrow> db" where
  "set_spool_active sid b d =
     (case spools d sid of
        None \<Rightarrow> d
      | Some sp \<Rightarrow> d\<lparr>spools := (spools d)(sid \<mapsto> sp\<lparr>spool_is_active := b\<rparr>)\<rparr>)"

section \<open>Derived notions and example states\<close>

text \<open>The jobs that currently print on a printer.\<close>

definition printing_jobs_on :: "db \<Rightarrow> int \<Rightarrow> print_job list" where
  "printing_jobs_on d pid = filter (\<lambda>j. printer_id j = pid \<and> status j = ''printing'') (jobs d)"

text \<open>
  The spool a job names, when it exists, has a total weight other than zero, so that
  \<open>update_spool_usage\<close> does not abort on it.
\<close>

definition spool_capacity_ok :: "db \<Rightarrow> print_job \<Rightarrow> bool" where
  "spool_capacity_ok d job =
     (case truthy_str (spool_id job) of
        None \<Rightarrow> True
      | Some sid \<Rightarrow> (case spools d sid of None \<Rightarrow> True | Some sp \<Rightarrow> total_weight_g sp \<noteq> 0))"

text \<open>The data-model bound on a spool.\<close>

definition within_capacity :: "spool \<Rightarrow> bool" where
  "within_capacity sp = (0 \<le> remaining_weight_g sp \<and> remaining_weight_g sp \<le> total_weight_g sp)"

text \<open>A farm with one idle, active printer and nothing else.\<close>

definition farm0 :: db where
  "farm0 = \<lparr>printers = [1 \<mapsto> \<lparr>printer_status = ''idle'', printer_is_active = True\<rparr>],
            spools = Map.empty, jobs = [], alerts = [], failure_events = []\<rparr>"

definition new_job :: "int \<Rightarrow> string \<Rightarrow> int \<Rightarrow> string \<Rightarrow> print_job" where
  "new_job pk code pid st =
     \<lparr>job_pk = pk, job_id = code, printer_id = pid, status = st, start_time = None,
      end_time = None, estimated_time_min = None, actual_time_min = None,
      material_g = None, spool_id = None, progress_percentage = Some 0,
      current_layer = Some 0\<rparr>"

definition full_spool :: "real \<Rightarrow> spool" where
  "full_spool weight =
     \<lparr>total_weight_g = weight, remaining_weight_g = weight, usage_percentage = 0,
      spool_is_active = True, is_low_inventory = False\<rparr>"

text \<open>Printer 1 prints job J1; job J2 is queued behind it on the same printer.\<close>

definition busy_farm :: db where
  "busy_farm =
     \<lparr>printers = [1 \<mapsto> \<lparr>printer_status = ''printing'', printer_is_active = True\<rparr>],
      spools = Map.empty,
      jobs = [(new_job 1 ''J1'' 1 ''printing'')\<lparr>start_time := Some 0\<rparr>,
              new_job 2 ''J2'' 1 ''queued''],
      alerts = [], failure_events = []\<rparr>"

text \<open>Printer 1 is in the error state a detected failure leaves behind; job J1 is queued on it.\<close>

definition faulted_farm :: db where
  "faulted_farm =
     \<lparr>printers = [1 \<mapsto> \<lparr>printer_status = ''error'', printer_is_active = True\<rparr>],
      spools = Map.empty, jobs = [new_job 1 ''J1'' 1 ''queued''],
      alerts = [], failure_events = []\<rparr>"

text \<open>Printer 1 prints job J1, started at time 0, from spool S (1000 g) with 900 g declared.\<close>

definition printing_job :: print_job where
  "printing_job =
     (new_job 1 ''J1'' 1 ''printing'')\<lparr>start_time := Some 0, material_g := Some 900,
                                      spool_id := Some ''S''\<rparr>"

definition printing_farm :: db where
  "printing_farm =
     \<lparr>printers = [1 \<mapsto> \<lparr>printer_status = ''printing'', printer_is_active = True\<rparr>],
      spools = [''S'' \<mapsto> full_spool 1000],
      jobs = [printing_job], alerts = [], failure_events = []\<rparr>"

text \<open>Job J1 has completed at 50 percent stored progress; its spool S is still full.\<close>

definition finished_job :: print_job where
  "finished_job =
     (new_job 1 ''J1'' 1 ''completed'')\<lparr>start_time := Some 0, end_time := Some 60000000,
                                       material_g := Some 900, spool_id := Some ''S'',
                                       progress_percentage := Some 50\<rparr>"

definition finished_farm :: db where
  "finished_farm =
     \<lparr>printers = [1 \<mapsto> \<lparr>printer_status = ''idle'', printer_is_active = True\<rparr>],
      spools = [''S'' \<mapsto> full_spool 1000],
      jobs = [finished_job], alerts = [], failure_events = []\<rparr>"

text \<open>
  Two jobs are created on the idle printer 1, the first is started, and then
  \<open>complete_job\<close> is called on the second, which is still queued.
\<close>

definition after_complete_queued :: db where
  "after_complete_queued =
     snd (complete_job (15 / 100) 20 ''J2'' True
       (snd (start_job 10 ''J1''
         (snd (create_job ''J2'' 1 None None None
           (snd (create_job ''J1'' 1 None None None farm0)))))))"



text \<open>As \<open>printing_farm\<close>, with a spool of 2000 g.\<close>

definition stocked_farm :: db where
  "stocked_farm =
     \<lparr>printers = [1 \<mapsto> \<lparr>printer_status = ''printing'', printer_is_active = True\<rparr>],
      spools = [''S'' \<mapsto> full_spool 2000],
      jobs = [printing_job], alerts = [], failure_events = []\<rparr>"

text \<open>
  The (spool code, alert type) pairs of the unresolved alerts, one entry per alert.
  The alerts are deduplicated when no pair occurs twice.
\<close>

definition unresolved_keys :: "inventory_alert list \<Rightarrow> (string \<times> string) list" where
  "unresolved_keys as =
     map (\<lambda>a. (alert_spool_id a, alert_type a)) (filter (\<lambda>a. \<not> is_resolved a) as)"

definition deduplicated :: "db \<Rightarrow> bool" where
  "deduplicated d = distinct (unresolved_keys (alerts d))"

text \<open>
  The calls a client can make, one constructor per service method or writing endpoint,
  and the state after a call. \<open>alert_threshold\<close> and \<open>threshold\<close> are the two settings
  the services read.
\<close>

datatype operation =
    Create_spool string real
  | Update_spool_usage string real
  | Resolve_alert int
  | Set_spool_active string bool
  | Set_printer_status int string
  | Create_job string int "int option" "real option" "string option"
  | Start_job timestamp string
  | Update_job_progress string real "int option"
  | Complete_job timestamp string bool
  | Detect_failure_from_image timestamp string string frame
  | Delete_job string

fun apply_operation :: "real \<Rightarrow> real \<Rightarrow> operation \<Rightarrow> db \<Rightarrow> db" where
  "apply_operation alert_threshold threshold (Create_spool sid weight) d =
     snd (create_spool sid weight d)"
| "apply_operation alert_threshold threshold (Update_spool_usage sid g) d =
     snd (snd (update_spool_usage alert_threshold sid g (d, d)))"
| "apply_operation alert_threshold threshold (Resolve_alert aid) d =
     snd (resolve_alert aid d)"
| "apply_operation alert_threshold threshold (Set_spool_active sid b) d =
     set_spool_active sid b d"
| "apply_operation alert_threshold threshold (Set_printer_status pid st) d =
     set_printer_status pid st d"
| "apply_operation alert_threshold threshold (Create_job code pid estimated material sp_id) d =
     snd (create_job code pid estimated material sp_id d)"
| "apply_operation alert_threshold threshold (Start_job now jid) d =
     snd (start_job now jid d)"
| "apply_operation alert_threshold threshold (Update_job_progress jid progress layer) d =
     snd (update_job_progress alert_threshold jid progress layer d)"
| "apply_operation alert_threshold threshold (Complete_job now jid success) d =
     snd (complete_job alert_threshold now jid success d)"
| "apply_operation alert_threshold threshold (Detect_failure_from_image now jid path fr) d =
     snd (detect_failure_from_image alert_threshold threshold now jid path fr d)"
| "apply_operation alert_threshold threshold (Delete_job jid) d =
     snd (delete_job jid d)"

text \<open>
  A call consumes material in non-negative amounts: spool usage is reported with
  \<open>grams \<ge> 0\<close>, and a job declares no negative material requirement.
\<close>

fun non_negative_amounts :: "operation \<Rightarrow> bool" where
  "non_negative_amounts (Update_spool_usage sid g) = (0 \<le> g)"
| "non_negative_amounts (Create_job code pid estimated material sp_id) =
     (case material of None \<Rightarrow> True | Some m \<Rightarrow> 0 \<le> m)"
| "non_negative_amounts other = True"

text \<open>An empty farm: printers only.\<close>

definition empty_farm :: "(int \<rightharpoonup> printer) \<Rightarrow> db" where
  "empty_farm ps = \<lparr>printers = ps, spools = Map.empty, jobs = [], alerts = [], failure_events = []\<rparr>"

text \<open>
  The invariant behind the deduplication of alerts. A spool is \<open>settled\<close> when its
  low-inventory flag, once set, stays set under further non-negative consumption. The
  ledger is in order when the unresolved alerts are deduplicated, every unresolved
  \<open>low_inventory\<close> alert belongs to a spool whose flag is set, and every spool is settled.
\<close>

definition settled :: "real \<Rightarrow> spool \<Rightarrow> bool" where
  "settled thr sp =
     ((total_weight_g sp < 0 \<longrightarrow> remaining_weight_g sp \<le> 0)
      \<and> (is_low_inventory sp \<longrightarrow> max 0 (remaining_weight_g sp) / total_weight_g sp \<le> thr))"

definition ledger_ok :: "real \<Rightarrow> (string \<rightharpoonup> spool) \<Rightarrow> inventory_alert list \<Rightarrow> bool" where
  "ledger_ok thr sps as =
     (distinct (unresolved_keys as)
      \<and> (\<forall>a \<in> set as. \<not> is_resolved a \<longrightarrow> alert_type a = ''low_inventory'' \<longrightarrow>
            (\<exists>sp. sps (alert_spool_id a) = Some sp \<and> is_low_inventory sp))
      \<and> (\<forall>sid sp. sps sid = Some sp \<longrightarrow> settled thr sp))"

definition materials_ok :: "print_job list \<Rightarrow> bool" where
  "materials_ok js = (\<forall>j \<in> set js. case material_g j of None \<Rightarrow> True | Some m \<Rightarrow> 0 \<le> m)"

definition farm_inv :: "real \<Rightarrow> db \<Rightarrow> bool" where
  "farm_inv thr d = (ledger_ok thr (spools d) (alerts d) \<and> materials_ok (jobs d))"

text \<open>
  A spool is drawn down to 50 g, then a job needing 500 g is queued on it and started
  twice.
\<close>

definition low_stock_calls :: "operation list" where
  "low_stock_calls =
     [Create_spool ''S'' 1000, Update_spool_usage ''S'' 900, Update_spool_usage ''S'' 50,
      Create_job ''K'' 1 None (Some 500) (Some ''S''), Start_job 0 ''K'', Start_job 5 ''K'']"

text \<open>
  A spool is drawn down to 100 g, then 500 g are reported back through a negative
  usage, then 500 g are consumed again.
\<close>

definition refill_calls :: "operation list" where
  "refill_calls =
     [Create_spool ''S'' 1000, Update_spool_usage ''S'' 900, Update_spool_usage ''S'' (- 500),
      Update_spool_usage ''S'' 500]"

text \<open>A spool created with a negative total weight, which \<open>create_spool\<close> accepts.\<close>

definition undersized_farm :: db where
  "undersized_farm = snd (create_spool ''S'' (- 5) farm0)"

text \<open>A spool of 1000 g to which 500 g were reported back through a negative usage.\<close>

definition refilled_farm :: db where
  "refilled_farm =
     fold (apply_operation (15 / 100) (7 / 10))
       [Create_spool ''S'' 1000, Update_spool_usage ''S'' (- 500)] farm0"

lemmas service_defs =
  create_spool_def create_job_def start_job_def update_job_progress_def complete_job_def
  detect_failure_from_image_def delete_job_def update_spool_usage_def resolve_alert_def
  get_job_def truthy_str_def truthy_real_def or_zero_def next_pk_def set_printer_status_def
  commit_def rollback_def check_active_job_def ensure_alert_def create_inventory_alert_def
  int_trunc_div_def detect_failure_def highest_confidence_def set_spool_active_def Let_def

lemmas example_defs =
  farm0_def new_job_def full_spool_def busy_farm_def faulted_farm_def printing_job_def
  printing_farm_def finished_job_def finished_farm_def stocked_farm_def empty_farm_def

section \<open>Frame and lookup lemmas\<close>

lemma ensure_alert_frame [simp]:
  "jobs (ensure_alert sid ty t c w) = jobs w"
  "printers (ensure_alert sid ty t c w) = printers w"
  "spools (ensure_alert sid ty t c w) = spools w"
  "failure_events (ensure_alert sid ty t c w) = failure_events w"
  by (simp_all add: ensure_alert_def split: option.splits)

lemma create_inventory_alert_frame [simp]:
  "jobs (create_inventory_alert thr sid rp w) = jobs w"
  "printers (create_inventory_alert thr sid rp w) = printers w"
  "spools (create_inventory_alert thr sid rp w) = spools w"
  "failure_events (create_inventory_alert thr sid rp w) = failure_events w"
  by (simp_all add: create_inventory_alert_def)

lemma check_active_job_frame [simp]:
  "jobs (check_active_job sid r j w) = jobs w"
  "printers (check_active_job sid r j w) = printers w"
  "spools (check_active_job sid r j w) = spools w"
  "failure_events (check_active_job sid r j w) = failure_events w"
  by (simp_all add: check_active_job_def Let_def split: option.splits)

lemma fold_check_active_job_frame [simp]:
  "jobs (fold (check_active_job sid r) js w) = jobs w"
  "printers (fold (check_active_job sid r) js w) = printers w"
  "spools (fold (check_active_job sid r) js w) = spools w"
  "failure_events (fold (check_active_job sid r) js w) = failure_events w"
  by (induction js arbitrary: w) simp_all

lemma set_printer_status_frame [simp]:
  "jobs (set_printer_status pid st w) = jobs w"
  "spools (set_printer_status pid st w) = spools w"
  "alerts (set_printer_status pid st w) = alerts w"
  "failure_events (set_printer_status pid st w) = failure_events w"
  by (simp_all add: set_printer_status_def split: option.splits)

text \<open>The three ways \<open>update_spool_usage\<close> returns.\<close>

lemma update_spool_usage_missing:
  "spools w sid = None \<Longrightarrow> update_spool_usage thr sid g (c, w) = (False, (c, w))"
  by (simp add: update_spool_usage_def)

lemma update_spool_usage_zero_total:
  "spools w sid = Some sp \<Longrightarrow> total_weight_g sp = 0 \<Longrightarrow>
   update_spool_usage thr sid g (c, w) = (False, (c, c))"
  by (simp add: update_spool_usage_def rollback_def)

lemma update_spool_usage_ok:
  assumes "spools w sid = Some sp" and "total_weight_g sp \<noteq> 0"
  shows "\<exists>w'. update_spool_usage thr sid g (c, w) = (True, (w', w'))
           \<and> jobs w' = jobs w \<and> printers w' = printers w
           \<and> failure_events w' = failure_events w
           \<and> spools w' = (spools w)(sid \<mapsto>
                sp\<lparr>remaining_weight_g := max 0 (remaining_weight_g sp - g),
                   usage_percentage :=
                     (total_weight_g sp - max 0 (remaining_weight_g sp - g)) / total_weight_g sp,
                   is_low_inventory :=
                     (max 0 (remaining_weight_g sp - g) / total_weight_g sp \<le> thr)\<rparr>)"
  using assms by (simp add: update_spool_usage_def commit_def Let_def)

lemma find_upd_job:
  assumes "\<And>j. job_id (f j) = job_id j"
  shows "find (\<lambda>j. job_id j = k) (upd_job jid f js) =
           (if k = jid then map_option f (find (\<lambda>j. job_id j = jid) js)
            else find (\<lambda>j. job_id j = k) js)"
  using assms by (induction js) auto

lemma int_trunc_div_real:
  assumes "0 < b"
  shows "int_trunc_div a b =
     (if 0 \<le> a then \<lfloor>real_of_int a / real_of_int b\<rfloor> else \<lceil>real_of_int a / real_of_int b\<rceil>)"
proof (cases "0 \<le> a")
  case True
  then show ?thesis by (simp add: int_trunc_div_def floor_divide_of_int_eq)
next
  case False
  have "(- a) div b = \<lfloor>real_of_int (- a) / real_of_int b\<rfloor>"
    by (simp only: floor_divide_of_int_eq)
  also have "\<dots> = \<lfloor>- (real_of_int a / real_of_int b)\<rfloor>" by simp
  finally show ?thesis using False by (simp add: int_trunc_div_def ceiling_def)
qed

lemma update_spool_usage_top_frame [simp]:
  "jobs (snd (snd (update_spool_usage thr sid g (d, d)))) = jobs d"
  "printers (snd (snd (update_spool_usage thr sid g (d, d)))) = printers d"
  "failure_events (snd (snd (update_spool_usage thr sid g (d, d)))) = failure_events d"
  by (simp_all add: update_spool_usage_def rollback_def commit_def Let_def split: option.splits)

lemma update_spool_usage_other_spool:
  "s \<noteq> sid \<Longrightarrow> spools (snd (snd (update_spool_usage thr sid g (d, d)))) s = spools d s"
  by (simp add: update_spool_usage_def rollback_def commit_def Let_def split: option.splits)

subsection \<open>What update_job_progress does\<close>

lemma update_job_progress_jobs:
  assumes "get_job d jid = Some job"
  shows "fst (update_job_progress thr jid p layer d) = True"
    and "jobs (snd (update_job_progress thr jid p layer d)) =
           upd_job jid (\<lambda>j. j\<lparr>progress_percentage := Some (max 0 (min 100 p)),
                               current_layer := (case layer of None \<Rightarrow> current_layer j
                                                 | Some l \<Rightarrow> Some l)\<rparr>) (jobs d)"
    and "printers (snd (update_job_progress thr jid p layer d)) = printers d"
    and "failure_events (snd (update_job_progress thr jid p layer d)) = failure_events d"
  using assms by (simp_all add: update_job_progress_def Let_def split: option.splits)

lemma update_job_progress_get_job:
  assumes "get_job d jid = Some job"
  shows "get_job (snd (update_job_progress thr jid p layer d)) jid =
           Some (job\<lparr>progress_percentage := Some (max 0 (min 100 p)),
                     current_layer := (case layer of None \<Rightarrow> current_layer job
                                       | Some l \<Rightarrow> Some l)\<rparr>)"
  using assms by (simp add: get_job_def update_job_progress_jobs(2) [OF assms] find_upd_job)

lemma update_job_progress_no_delta:
  assumes "get_job d jid = Some job"
    and "max 0 (min 100 p) - or_zero (progress_percentage job) \<le> 0"
  shows "spools (snd (update_job_progress thr jid p layer d)) = spools d"
    and "alerts (snd (update_job_progress thr jid p layer d)) = alerts d"
proof -
  have nd: "\<not> 0 < max 0 (min 100 p) - or_zero (progress_percentage job)"
    using assms(2) by linarith
  have "\<exists>f. snd (update_job_progress thr jid p layer d) = d\<lparr>jobs := f\<rparr>"
    unfolding update_job_progress_def Let_def
    by (simp only: assms(1) option.case nd if_False snd_conv) blast
  then show "spools (snd (update_job_progress thr jid p layer d)) = spools d"
    and "alerts (snd (update_job_progress thr jid p layer d)) = alerts d"
    by auto
qed

lemma update_job_progress_spool:
  assumes "get_job d jid = Some job"
    and "0 < max 0 (min 100 p) - or_zero (progress_percentage job)"
    and "truthy_str (spool_id job) = Some sid" and "truthy_real (material_g job) = Some m"
    and "spools d sid = Some sp" and "total_weight_g sp \<noteq> 0"
  shows "\<exists>sp'. spools (snd (update_job_progress thr jid p layer d)) sid = Some sp'
           \<and> total_weight_g sp' = total_weight_g sp
           \<and> remaining_weight_g sp' =
               max 0 (remaining_weight_g sp
                      - m * ((max 0 (min 100 p) - or_zero (progress_percentage job)) / 100))"
proof -
  let ?g = "m * ((max 0 (min 100 p) - or_zero (progress_percentage job)) / 100)"
  obtain w' where w': "update_spool_usage thr sid ?g (d, d) = (True, (w', w'))"
    and sp': "spools w' = (spools d)(sid \<mapsto>
                sp\<lparr>remaining_weight_g := max 0 (remaining_weight_g sp - ?g),
                   usage_percentage :=
                     (total_weight_g sp - max 0 (remaining_weight_g sp - ?g)) / total_weight_g sp,
                   is_low_inventory :=
                     (max 0 (remaining_weight_g sp - ?g) / total_weight_g sp \<le> thr)\<rparr>)"
    using update_spool_usage_ok [OF assms(5,6)] by blast
  have "\<exists>w f. snd (update_job_progress thr jid p layer d) = w\<lparr>jobs := f\<rparr> \<and> spools w = spools w'"
    unfolding update_job_progress_def Let_def
    by (simp only: assms(1,2,3,4) option.case if_True snd_conv w')
       (auto split: option.splits)
  then show ?thesis by (auto simp: sp')
qed

subsection \<open>Failure detection\<close>

lemma highest_confidence_fold:
  "fst (fold (\<lambda>(failure_type_name, confidence) (max_confidence, ftype).
             if confidence > max_confidence then (confidence, failure_type_name)
             else (max_confidence, ftype)) results acc)
     = fold max (map snd results) (fst (acc :: real \<times> string))"
proof (induction results arbitrary: acc)
  case Nil
  show ?case by simp
next
  case (Cons r rs)
  obtain n c where r: "r = (n, c)" by (cases r)
  obtain m t where acc: "acc = (m, t)" by (cases acc)
  show ?case by (auto simp: r acc Cons.IH max_def)
qed

lemma highest_confidence_Max:
  assumes "results \<noteq> []" and "\<forall>r \<in> set results. 0 \<le> snd r"
  shows "fst (highest_confidence results) = Max (snd ` set results)"
proof -
  have "fst (highest_confidence results) = fold max (map snd results) 0"
    by (simp add: highest_confidence_def highest_confidence_fold)
  also have "\<dots> = Max (set (0 # map snd results))"
    by (simp only: Max.set_eq_fold)
  also have "\<dots> = max 0 (Max (snd ` set results))"
    using assms(1) by simp
  also have "\<dots> = Max (snd ` set results)"
  proof -
    obtain r where "r \<in> set results" using assms(1) by (cases results) auto
    then have "0 \<le> snd r" and "snd r \<le> Max (snd ` set results)"
      using assms(2) by auto
    then show ?thesis by simp
  qed
  finally show ?thesis .
qed

lemma detect_failure_scores:
  assumes "results \<noteq> []" and "\<forall>r \<in> set results. 0 \<le> snd r"
  shows "\<exists>ftype. detect_failure threshold (Scores results) =
           (threshold < Max (snd ` set results), Max (snd ` set results), ftype)"
  using highest_confidence_Max [OF assms]
  by (cases "highest_confidence results") (simp add: detect_failure_def)

lemma update_spool_usage_top_spool_dom:
  "spools d s = Some sp \<Longrightarrow>
   \<exists>sp'. spools (snd (snd (update_spool_usage thr sid g (d, d)))) s = Some sp'"
  by (simp add: update_spool_usage_def rollback_def commit_def Let_def split: option.splits)


lemma detect_failure_from_image_positive:
  assumes "get_job d jid = Some job" and "detect_failure threshold fr = (True, c, ft)"
  shows "\<exists>w. jobs w = jobs d \<and> printers w = printers d
           \<and> failure_events w = failure_events d
           \<and> (\<forall>s sp. spools d s = Some sp \<longrightarrow> (\<exists>sp'. spools w s = Some sp'))
           \<and> (w = d \<or> (\<exists>sid g. 0 < g
                  \<and> w = snd (snd (update_spool_usage alert_threshold sid g (d, d)))))
           \<and> detect_failure_from_image alert_threshold threshold now jid path fr d =
               (let event = \<lparr>fe_job_id = job_pk job, failure_type = ft,
                              confidence_score = c, image_path = path\<rparr>;
                    w1 = w\<lparr>failure_events := failure_events w @ [event]\<rparr>;
                    w2 = w1\<lparr>jobs := upd_job jid
                            (\<lambda>j. j\<lparr>status := ''failed'', end_time := Some now\<rparr>) (jobs w1)\<rparr>;
                    w3 = set_printer_status (printer_id job) ''error'' w2;
                    w4 = (case truthy_str (spool_id job) of
                            None \<Rightarrow> w3
                          | Some sid \<Rightarrow>
                              (case spools w3 sid of
                                 None \<Rightarrow> w3
                               | Some sp \<Rightarrow>
                                   w3\<lparr>spools := (spools w3)(sid \<mapsto> sp\<lparr>spool_is_active := False\<rparr>)\<rparr>))
                in (Some event, w4))"
proof -
  define w where "w =
    (case truthy_str (spool_id job) of
       None \<Rightarrow> d
     | Some sid \<Rightarrow>
         (case truthy_real (material_g job) of
            None \<Rightarrow> d
          | Some m \<Rightarrow>
              let total_minutes =
                    (case estimated_time_min job of
                       None \<Rightarrow> 60
                     | Some t \<Rightarrow> if t = 0 then 60 else t);
                  seconds_total = max (total_minutes * 60) 1;
                  elapsed_s =
                    (case start_time job of
                       None \<Rightarrow> 30
                     | Some st \<Rightarrow> int_trunc_div (now - st) 1000000);
                  window_s = min 30 (max elapsed_s 0);
                  used_g = (m * real_of_int window_s) / real_of_int seconds_total
              in if used_g > 0
                 then snd (snd (update_spool_usage alert_threshold sid used_g (d, d)))
                 else d))"
  have frame: "jobs w = jobs d" "printers w = printers d" "failure_events w = failure_events d"
    unfolding w_def Let_def by (simp_all split: option.splits)
  have dom: "\<exists>sp'. spools w s = Some sp'" if "spools d s = Some sp" for s sp
    unfolding w_def Let_def
    using that update_spool_usage_top_spool_dom [OF that]
    by (simp split: option.splits)
  have shape: "w = d \<or> (\<exists>sid g. 0 < g
                  \<and> w = snd (snd (update_spool_usage alert_threshold sid g (d, d))))"
  proof (cases "truthy_str (spool_id job)")
    case None
    then show ?thesis by (simp add: w_def)
  next
    case sid: (Some sid)
    show ?thesis
    proof (cases "truthy_real (material_g job)")
      case None
      then show ?thesis by (simp add: w_def sid)
    next
      case (Some m)
      have "\<exists>g. w = (if 0 < g
                      then snd (snd (update_spool_usage alert_threshold sid g (d, d))) else d)"
        unfolding w_def Let_def by (simp only: sid Some option.case) blast
      then obtain g where
        "w = (if 0 < g then snd (snd (update_spool_usage alert_threshold sid g (d, d))) else d)"
        by blast
      then show ?thesis by (cases "0 < g") auto
    qed
  qed
  have "detect_failure_from_image alert_threshold threshold now jid path fr d =
               (let event = \<lparr>fe_job_id = job_pk job, failure_type = ft,
                              confidence_score = c, image_path = path\<rparr>;
                    w1 = w\<lparr>failure_events := failure_events w @ [event]\<rparr>;
                    w2 = w1\<lparr>jobs := upd_job jid
                            (\<lambda>j. j\<lparr>status := ''failed'', end_time := Some now\<rparr>) (jobs w1)\<rparr>;
                    w3 = set_printer_status (printer_id job) ''error'' w2;
                    w4 = (case truthy_str (spool_id job) of
                            None \<Rightarrow> w3
                          | Some sid \<Rightarrow>
                              (case spools w3 sid of
                                 None \<Rightarrow> w3
                               | Some sp \<Rightarrow>
                                   w3\<lparr>spools := (spools w3)(sid \<mapsto> sp\<lparr>spool_is_active := False\<rparr>)\<rparr>))
                in (Some event, w4))"
    unfolding detect_failure_from_image_def w_def Let_def
    by (simp only: assms option.case prod.case if_True)
  with frame dom shape show ?thesis by blast
qed

subsection \<open>Material taken over the life of a job\<close>




subsection \<open>The ledger invariant\<close>

lemma unresolved_keys_append:
  "unresolved_keys (as @ [a]) =
     unresolved_keys as @ (if is_resolved a then [] else [(alert_spool_id a, alert_type a)])"
  by (simp add: unresolved_keys_def)

lemma find_unresolved_None:
  "(find (\<lambda>a. alert_spool_id a = sid \<and> alert_type a = ty \<and> \<not> is_resolved a) as = None)
     = ((sid, ty) \<notin> set (unresolved_keys as))"
  by (auto simp: find_None_iff unresolved_keys_def)

lemma ledger_ok_append:
  assumes "ledger_ok thr sps as" and "(sid, ty) \<notin> set (unresolved_keys as)"
    and "ty = ''low_inventory'' \<longrightarrow> (\<exists>sp. sps sid = Some sp \<and> is_low_inventory sp)"
  shows "ledger_ok thr sps
           (as @ [\<lparr>alert_pk = k, alert_spool_id = sid, alert_type = ty,
                    threshold_percentage = t, current_percentage = c, is_resolved = False\<rparr>])"
  using assms by (auto simp: ledger_ok_def unresolved_keys_append)

lemma ledger_ensure:
  assumes "ledger_ok thr sps (alerts w)" and "ty \<noteq> ''low_inventory''"
  shows "ledger_ok thr sps (alerts (ensure_alert sid ty t c w))"
proof (cases "find (\<lambda>a. alert_spool_id a = sid \<and> alert_type a = ty \<and> \<not> is_resolved a) (alerts w)")
  case None
  then have "(sid, ty) \<notin> set (unresolved_keys (alerts w))"
    by (simp add: find_unresolved_None)
  then show ?thesis
    using None assms by (simp add: ensure_alert_def ledger_ok_append)
next
  case (Some a)
  then show ?thesis using assms(1) by (simp add: ensure_alert_def)
qed

lemma ledger_check_active_job:
  assumes "ledger_ok thr sps (alerts w)"
  shows "ledger_ok thr sps (alerts (check_active_job sid r j w))"
  using assms by (simp add: check_active_job_def Let_def ledger_ensure split: option.splits)

lemma ledger_fold_check_active_job:
  "ledger_ok thr sps (alerts w) \<Longrightarrow>
   ledger_ok thr sps (alerts (fold (check_active_job sid r) js w))"
  by (induction js arbitrary: w) (simp_all add: ledger_check_active_job)

lemma settled_step:
  assumes "settled thr sp" and "total_weight_g sp \<noteq> 0" and "0 \<le> g"
  shows "settled thr (sp\<lparr>remaining_weight_g := max 0 (remaining_weight_g sp - g),
                          usage_percentage := u,
                          is_low_inventory :=
                            (max 0 (remaining_weight_g sp - g) / total_weight_g sp \<le> thr)\<rparr>)"
    and "is_low_inventory sp \<Longrightarrow> max 0 (remaining_weight_g sp - g) / total_weight_g sp \<le> thr"
proof -
  let ?r = "remaining_weight_g sp" and ?t = "total_weight_g sp"
  let ?r' = "max 0 (?r - g)"
  have neg: "?r' = 0" if "?t < 0"
    using that assms(1,3) by (simp add: settled_def)
  show "settled thr (sp\<lparr>remaining_weight_g := ?r', usage_percentage := u,
                          is_low_inventory := (?r' / ?t \<le> thr)\<rparr>)"
    using neg by (auto simp: settled_def)
  show "?r' / ?t \<le> thr" if low: "is_low_inventory sp"
  proof (cases "0 < ?t")
    case True
    have "?r' \<le> max 0 ?r" using assms(3) by simp
    then have "?r' / ?t \<le> max 0 ?r / ?t" using True by (simp add: divide_right_mono)
    also have "\<dots> \<le> thr" using low assms(1) by (simp add: settled_def)
    finally show ?thesis .
  next
    case False
    then have t: "?t < 0" using assms(2) by simp
    then have "?r \<le> 0" using assms(1) by (simp add: settled_def)
    then have "max 0 ?r = 0" by simp
    then have "0 / ?t \<le> thr" using low assms(1) by (simp add: settled_def)
    then show ?thesis using neg [OF t] by simp
  qed
qed

lemma ledger_spool_update:
  assumes ok: "ledger_ok thr sps as" and sp: "sps sid = Some sp"
    and nz: "total_weight_g sp \<noteq> 0" and g: "0 \<le> g"
  shows "ledger_ok thr
           (sps(sid \<mapsto> sp\<lparr>remaining_weight_g := max 0 (remaining_weight_g sp - g),
                            usage_percentage := u,
                            is_low_inventory :=
                              (max 0 (remaining_weight_g sp - g) / total_weight_g sp \<le> thr)\<rparr>))
           as"
    and "\<not> is_low_inventory sp \<Longrightarrow> (sid, ''low_inventory'') \<notin> set (unresolved_keys as)"
proof -
  have st: "settled thr sp" using ok sp by (simp add: ledger_ok_def)
  note step = settled_step [OF st nz g]
  show "ledger_ok thr
           (sps(sid \<mapsto> sp\<lparr>remaining_weight_g := max 0 (remaining_weight_g sp - g),
                            usage_percentage := u,
                            is_low_inventory :=
                              (max 0 (remaining_weight_g sp - g) / total_weight_g sp \<le> thr)\<rparr>))
           as"
    unfolding ledger_ok_def
  proof (intro conjI ballI allI impI)
    show "distinct (unresolved_keys as)" using ok by (simp add: ledger_ok_def)
  next
    fix a assume a: "a \<in> set as" "\<not> is_resolved a" "alert_type a = ''low_inventory''"
    then obtain sp0 where sp0: "sps (alert_spool_id a) = Some sp0" "is_low_inventory sp0"
      using ok by (auto simp: ledger_ok_def)
    show "\<exists>spa. (sps(sid \<mapsto> sp\<lparr>remaining_weight_g := max 0 (remaining_weight_g sp - g),
                            usage_percentage := u,
                            is_low_inventory :=
                              (max 0 (remaining_weight_g sp - g) / total_weight_g sp \<le> thr)\<rparr>))
                  (alert_spool_id a) = Some spa \<and> is_low_inventory spa"
    proof (cases "alert_spool_id a = sid")
      case True
      then have "is_low_inventory sp" using sp sp0 by simp
      then show ?thesis using True step(2) by simp
    next
      case False
      then show ?thesis using sp0 by simp
    qed
  next
    fix s spa
    assume "(sps(sid \<mapsto> sp\<lparr>remaining_weight_g := max 0 (remaining_weight_g sp - g),
                            usage_percentage := u,
                            is_low_inventory :=
                              (max 0 (remaining_weight_g sp - g) / total_weight_g sp \<le> thr)\<rparr>))
              s = Some spa"
    then show "settled thr spa"
      using step(1) [of u] ok by (auto simp: ledger_ok_def split: if_splits)
  qed
  show "(sid, ''low_inventory'') \<notin> set (unresolved_keys as)" if "\<not> is_low_inventory sp"
    using that ok sp by (auto simp: ledger_ok_def unresolved_keys_def)
qed

lemma ledger_update_spool_usage:
  assumes c: "ledger_ok thr (spools c) (alerts c)" and w: "ledger_ok thr (spools w) (alerts w)"
    and g: "0 \<le> g"
  shows "ledger_ok thr (spools (snd (snd (update_spool_usage thr sid g (c, w)))))
                       (alerts (snd (snd (update_spool_usage thr sid g (c, w)))))"
proof (cases "spools w sid")
  case None
  then show ?thesis using w by (simp add: update_spool_usage_missing)
next
  case (Some sp)
  show ?thesis
  proof (cases "total_weight_g sp = 0")
    case True
    then show ?thesis using c Some by (simp add: update_spool_usage_zero_total)
  next
    case False
    let ?r = "max 0 (remaining_weight_g sp - g)"
    let ?low = "?r / total_weight_g sp \<le> thr"
    let ?sp' = "sp\<lparr>remaining_weight_g := ?r,
                    usage_percentage := (total_weight_g sp - ?r) / total_weight_g sp,
                    is_low_inventory := ?low\<rparr>"
    let ?sps = "(spools w)(sid \<mapsto> ?sp')"
    let ?w1 = "w\<lparr>spools := ?sps\<rparr>"
    let ?w2 = "if ?low \<and> \<not> is_low_inventory sp
               then create_inventory_alert thr sid (?r / total_weight_g sp) ?w1 else ?w1"
    let ?w3 = "fold (check_active_job sid ?r)
                 (filter (\<lambda>j. spool_id j = Some sid \<and> status j = ''printing'') (jobs ?w2)) ?w2"
    have res: "snd (snd (update_spool_usage thr sid g (c, w))) = ?w3"
      using Some False by (simp add: update_spool_usage_def commit_def Let_def)
    have l1: "ledger_ok thr ?sps (alerts w)"
      by (rule ledger_spool_update(1) [OF w Some False g])
    have l2: "ledger_ok thr ?sps (alerts ?w2)"
    proof (cases "?low \<and> \<not> is_low_inventory sp")
      case True
      then have "(sid, ''low_inventory'') \<notin> set (unresolved_keys (alerts w))"
        using ledger_spool_update(2) [OF w Some False g] by simp
      then show ?thesis
        using True l1 by (simp add: create_inventory_alert_def ledger_ok_append)
    next
      case False
      then show ?thesis using l1 by auto
    qed
    have "spools ?w3 = ?sps" by simp
    moreover have "ledger_ok thr ?sps (alerts ?w3)"
      by (rule ledger_fold_check_active_job [OF l2])
    ultimately show ?thesis by (simp only: res)
  qed
qed

subsection \<open>Operations that keep the invariant\<close>

lemma set_upd_job: "set (upd_job jid f js) \<subseteq> set js \<union> f ` set js"
  by (induction js) auto

lemma set_del_job: "set (del_job jid js) \<subseteq> set js"
  by (induction js) auto

lemma materials_upd_job:
  assumes "materials_ok js" and "\<And>j. material_g (f j) = material_g j"
  shows "materials_ok (upd_job jid f js)"
  using assms set_upd_job [of jid f js] by (fastforce simp: materials_ok_def)

lemma materials_del_job: "materials_ok js \<Longrightarrow> materials_ok (del_job jid js)"
  using set_del_job [of jid js] by (auto simp: materials_ok_def)

lemma materials_get_job:
  assumes "materials_ok (jobs d)" and "get_job d jid = Some job"
    and "truthy_real (material_g job) = Some m"
  shows "0 < m"
proof -
  have "job \<in> set (jobs d)"
    using assms(2) by (auto simp: get_job_def find_Some_iff in_set_conv_nth)
  then have "case material_g job of None \<Rightarrow> True | Some m \<Rightarrow> 0 \<le> m"
    using assms(1) by (simp add: materials_ok_def)
  then show ?thesis
    using assms(3) by (auto simp: truthy_real_def split: option.splits if_splits)
qed

lemma set_resolve_first:
  "a \<in> set (resolve_first aid as) \<Longrightarrow> \<not> is_resolved a \<Longrightarrow> a \<in> set as"
  by (induction as) (auto split: if_splits)

lemma unresolved_keys_resolve_first:
  "distinct (unresolved_keys as) \<Longrightarrow> distinct (unresolved_keys (resolve_first aid as))"
proof (induction as)
  case Nil
  then show ?case by simp
next
  case (Cons a as)
  have sub: "set (unresolved_keys (resolve_first aid as)) \<subseteq> set (unresolved_keys as)"
    using set_resolve_first [of _ aid as] by (auto simp: unresolved_keys_def)
  show ?case
    using Cons sub by (auto simp: unresolved_keys_def)
qed

lemma farm_inv_create_spool:
  assumes "farm_inv thr d"
  shows "farm_inv thr (snd (create_spool sid weight d))"
proof (cases "spools d sid")
  case (Some sp)
  then show ?thesis using assms by (simp add: create_spool_def)
next
  case None
  have "ledger_ok thr ((spools d)(sid \<mapsto>
             \<lparr>total_weight_g = weight, remaining_weight_g = weight, usage_percentage = 0,
              spool_is_active = True, is_low_inventory = False\<rparr>)) (alerts d)"
    using assms None by (auto simp: farm_inv_def ledger_ok_def settled_def)
  then show ?thesis using assms None by (simp add: create_spool_def farm_inv_def)
qed

lemma farm_inv_resolve_alert:
  assumes "farm_inv thr d"
  shows "farm_inv thr (snd (resolve_alert aid d))"
proof -
  have "ledger_ok thr (spools d) (resolve_first aid (alerts d))"
    using assms set_resolve_first [of _ aid "alerts d"]
    by (auto simp: farm_inv_def ledger_ok_def unresolved_keys_resolve_first)
  then show ?thesis
    using assms by (simp add: resolve_alert_def farm_inv_def split: option.splits)
qed

lemma farm_inv_set_spool_active:
  assumes "farm_inv thr d"
  shows "farm_inv thr (set_spool_active sid b d)"
proof (cases "spools d sid")
  case None
  then show ?thesis using assms by (simp add: set_spool_active_def)
next
  case (Some sp)
  have "ledger_ok thr ((spools d)(sid \<mapsto> sp\<lparr>spool_is_active := b\<rparr>)) (alerts d)"
    using assms Some by (auto simp: farm_inv_def ledger_ok_def settled_def)
  then show ?thesis using assms Some by (simp add: set_spool_active_def farm_inv_def)
qed

lemma farm_inv_set_printer_status:
  "farm_inv thr d \<Longrightarrow> farm_inv thr (set_printer_status pid st d)"
  by (simp add: farm_inv_def)

lemma farm_inv_update_spool_usage:
  assumes "farm_inv thr c" and "farm_inv thr w" and "0 \<le> g"
  shows "farm_inv thr (snd (snd (update_spool_usage thr sid g (c, w))))"
proof -
  have "jobs (snd (snd (update_spool_usage thr sid g (c, w)))) = jobs c
      \<or> jobs (snd (snd (update_spool_usage thr sid g (c, w)))) = jobs w"
    by (simp add: update_spool_usage_def rollback_def commit_def Let_def split: option.splits)
  then have "materials_ok (jobs (snd (snd (update_spool_usage thr sid g (c, w)))))"
    using assms(1,2) by (auto simp: farm_inv_def)
  then show ?thesis
    using ledger_update_spool_usage [of thr c w g sid] assms by (simp add: farm_inv_def)
qed

lemma farm_inv_ensure_alert:
  "farm_inv thr w \<Longrightarrow> farm_inv thr (ensure_alert sid ''insufficient_material'' t c w)"
  by (simp add: farm_inv_def ledger_ensure)

lemma farm_inv_upd_job:
  assumes "farm_inv thr w" and "\<And>j. material_g (f j) = material_g j"
  shows "farm_inv thr (w\<lparr>jobs := upd_job jid f (jobs w)\<rparr>)"
  using assms by (simp add: farm_inv_def materials_upd_job)

lemma farm_inv_create_job:
  assumes "farm_inv thr d" and "case material of None \<Rightarrow> True | Some m \<Rightarrow> 0 \<le> m"
  shows "farm_inv thr (snd (create_job code pid estimated material sp_id d))"
  using assms
  by (simp add: create_job_def farm_inv_def materials_ok_def Let_def split: option.splits)

lemma farm_inv_delete_job:
  assumes "farm_inv thr d"
  shows "farm_inv thr (snd (delete_job jid d))"
  using assms
  by (simp add: delete_job_def farm_inv_def materials_del_job split: option.splits)

lemma farm_inv_usage_if:
  "farm_inv thr d \<Longrightarrow>
   farm_inv thr (if 0 < g then snd (snd (update_spool_usage thr sid g (d, d))) else d)"
  by (simp add: farm_inv_update_spool_usage)

lemma farm_inv_ensure_if:
  "farm_inv thr w \<Longrightarrow>
   farm_inv thr (case spools w sid of
                   None \<Rightarrow> w
                 | Some sp \<Rightarrow> if remaining_weight_g sp < x
                              then ensure_alert sid ''insufficient_material'' None None w
                              else w)"
  by (simp add: farm_inv_ensure_alert split: option.splits)

lemma farm_inv_start_job:
  assumes "farm_inv thr d"
  shows "farm_inv thr (snd (start_job now jid d))"
  using assms unfolding start_job_def Let_def
  by (simp add: farm_inv_def ledger_ensure materials_upd_job split: option.splits prod.splits)

lemma farm_inv_update_job_progress:
  assumes inv: "farm_inv thr d"
  shows "farm_inv thr (snd (update_job_progress thr jid p layer d))"
proof (cases "get_job d jid")
  case None
  then show ?thesis using inv by (simp add: update_job_progress_def)
next
  case (Some job)
  let ?q = "max 0 (min 100 p)"
  let ?delta = "?q - or_zero (progress_percentage job)"
  define w where "w =
    (if ?delta > 0 then
       (case truthy_str (spool_id job) of
          None \<Rightarrow> d
        | Some sid \<Rightarrow>
            (case truthy_real (material_g job) of
               None \<Rightarrow> d
             | Some m \<Rightarrow>
                 let material_used_delta = m * (?delta / 100);
                     w1 = snd (snd (update_spool_usage thr sid material_used_delta (d, d)))
                 in (case spools w1 sid of
                       None \<Rightarrow> w1
                     | Some sp \<Rightarrow>
                         let remaining_needed = max 0 (m * (1 - ?q / 100))
                         in if remaining_weight_g sp < remaining_needed
                            then ensure_alert sid ''insufficient_material'' None None w1
                            else w1)))
     else d)"
  have res: "snd (update_job_progress thr jid p layer d) =
      w\<lparr>jobs := upd_job jid
            (\<lambda>j. j\<lparr>progress_percentage := Some ?q,
                    current_layer := (case layer of None \<Rightarrow> current_layer j
                                      | Some l \<Rightarrow> Some l)\<rparr>) (jobs w)\<rparr>"
    unfolding update_job_progress_def w_def Let_def
    by (simp only: Some option.case snd_conv)
  have "farm_inv thr w"
  proof (cases "0 < ?delta")
    case False
    then show ?thesis using inv by (simp only: w_def if_False)
  next
    case pos: True
    show ?thesis
    proof (cases "truthy_str (spool_id job)")
      case None
      then show ?thesis using inv pos by (simp only: w_def if_True option.case)
    next
      case sid: (Some sid)
      show ?thesis
      proof (cases "truthy_real (material_g job)")
        case None
        then show ?thesis using inv pos sid by (simp only: w_def if_True option.case)
      next
        case m: (Some m)
        let ?w1 = "snd (snd (update_spool_usage thr sid (m * (?delta / 100)) (d, d)))"
        have "0 < m" using materials_get_job [OF _ Some m] inv by (simp add: farm_inv_def)
        then have "0 \<le> m * (?delta / 100)" using pos by simp
        then have inv1: "farm_inv thr ?w1"
          by (rule farm_inv_update_spool_usage [OF inv inv])
        have "w = (case spools ?w1 sid of
                       None \<Rightarrow> ?w1
                     | Some sp \<Rightarrow>
                         if remaining_weight_g sp < max 0 (m * (1 - ?q / 100))
                            then ensure_alert sid ''insufficient_material'' None None ?w1
                            else ?w1)"
          unfolding w_def Let_def using pos by (simp only: sid m option.case if_True)
        then show ?thesis using farm_inv_ensure_if [OF inv1] by simp
      qed
    qed
  qed
  then show ?thesis
    unfolding res by (rule farm_inv_upd_job) simp
qed

lemma farm_inv_complete_job:
  assumes inv: "farm_inv thr d"
  shows "farm_inv thr (snd (complete_job thr now jid success d))"
proof (cases "get_job d jid")
  case None
  then show ?thesis using inv by (simp add: complete_job_def)
next
  case (Some job)
  let ?f = "\<lambda>j. j\<lparr>status := (if success then ''completed'' else ''failed''),
                   end_time := Some now,
                   actual_time_min :=
                     (case start_time j of
                        None \<Rightarrow> actual_time_min j
                      | Some st \<Rightarrow> Some (int_trunc_div (now - st) 60000000))\<rparr>"
  define w2 where "w2 = set_printer_status (printer_id job) ''idle'' (d\<lparr>jobs := upd_job jid ?f (jobs d)\<rparr>)"
  define ss where "ss =
                (if success then
                   (case truthy_str (spool_id job) of
                      None \<Rightarrow> (d, w2)
                    | Some sid \<Rightarrow>
                        (case truthy_real (material_g job) of
                           None \<Rightarrow> (d, w2)
                         | Some m \<Rightarrow>
                             let used_so_far = or_zero (progress_percentage job) / 100 * m;
                                 remaining = max 0 (m - used_so_far)
                             in if remaining > 0
                                then snd (update_spool_usage thr sid remaining (d, w2))
                                else (d, w2)))
                 else (d, w2))"
  have res: "snd (complete_job thr now jid success d) = snd ss"
    unfolding complete_job_def ss_def w2_def Let_def commit_def
    by (simp only: Some option.case snd_conv)
  have inv2: "farm_inv thr w2"
    unfolding w2_def
    by (intro farm_inv_set_printer_status farm_inv_upd_job inv) simp
  have usage: "farm_inv thr (snd (snd (update_spool_usage thr sid g (d, w2))))"
    if "0 \<le> g" for sid g
    using that by (rule farm_inv_update_spool_usage [OF inv inv2])
  have "farm_inv thr (snd ss)"
    unfolding ss_def Let_def
    using inv2 usage by (auto split: option.splits)
  then show ?thesis by (simp only: res)
qed

lemma farm_inv_detect_failure_from_image:
  assumes inv: "farm_inv thr d"
  shows "farm_inv thr (snd (detect_failure_from_image thr threshold now jid path fr d))"
proof (cases "get_job d jid")
  case None
  then show ?thesis using inv by (simp add: detect_failure_from_image_def)
next
  case (Some job)
  obtain b c ft where df: "detect_failure threshold fr = (b, c, ft)"
    by (cases "detect_failure threshold fr")
  show ?thesis
  proof (cases b)
    case False
    then show ?thesis using inv Some df by (simp add: detect_failure_from_image_def)
  next
    case True
    let ?e = "\<lparr>fe_job_id = job_pk job, failure_type = ft, confidence_score = c,
               image_path = path\<rparr>"
    have df': "detect_failure threshold fr = (True, c, ft)" using df True by simp
    obtain w where
      shape: "w = d \<or> (\<exists>sid g. 0 < g \<and> w = snd (snd (update_spool_usage thr sid g (d, d))))"
      and res: "detect_failure_from_image thr threshold now jid path fr d =
               (let event = ?e;
                    w1 = w\<lparr>failure_events := failure_events w @ [event]\<rparr>;
                    w2 = w1\<lparr>jobs := upd_job jid
                            (\<lambda>j. j\<lparr>status := ''failed'', end_time := Some now\<rparr>) (jobs w1)\<rparr>;
                    w3 = set_printer_status (printer_id job) ''error'' w2;
                    w4 = (case truthy_str (spool_id job) of
                            None \<Rightarrow> w3
                          | Some sid \<Rightarrow>
                              (case spools w3 sid of
                                 None \<Rightarrow> w3
                               | Some sp \<Rightarrow>
                                   w3\<lparr>spools := (spools w3)(sid \<mapsto> sp\<lparr>spool_is_active := False\<rparr>)\<rparr>))
                in (Some event, w4))"
      using detect_failure_from_image_positive [OF Some df', of thr now path] by blast
    define w1 where "w1 = w\<lparr>failure_events := failure_events w @ [?e]\<rparr>"
    define w2 where "w2 = w1\<lparr>jobs := upd_job jid
                            (\<lambda>j. j\<lparr>status := ''failed'', end_time := Some now\<rparr>) (jobs w1)\<rparr>"
    define w3 where "w3 = set_printer_status (printer_id job) ''error'' w2"
    have res': "snd (detect_failure_from_image thr threshold now jid path fr d) =
        (case truthy_str (spool_id job) of
           None \<Rightarrow> w3
         | Some sid \<Rightarrow> set_spool_active sid False w3)"
      unfolding res w3_def w2_def w1_def Let_def set_spool_active_def by (simp only: snd_conv)
    have "farm_inv thr w"
      using shape inv farm_inv_update_spool_usage [OF inv inv] by auto
    then have "farm_inv thr w1" by (simp add: w1_def farm_inv_def)
    then have "farm_inv thr w2" unfolding w2_def by (rule farm_inv_upd_job) simp
    then have "farm_inv thr w3" unfolding w3_def by (rule farm_inv_set_printer_status)
    then show ?thesis
      unfolding res' by (simp add: farm_inv_set_spool_active split: option.splits)
  qed
qed

lemma farm_inv_apply_operation:
  assumes "farm_inv thr d" and "non_negative_amounts op"
  shows "farm_inv thr (apply_operation thr threshold op d)"
  using assms
  by (cases op)
     (simp_all add: farm_inv_create_spool farm_inv_update_spool_usage farm_inv_resolve_alert
        farm_inv_set_spool_active farm_inv_set_printer_status farm_inv_create_job
        farm_inv_start_job farm_inv_update_job_progress farm_inv_complete_job
        farm_inv_detect_failure_from_image farm_inv_delete_job)

lemma farm_inv_fold_operations:
  "farm_inv thr d \<Longrightarrow> list_all non_negative_amounts ops \<Longrightarrow>
   farm_inv thr (fold (apply_operation thr threshold) ops d)"
  by (induction ops arbitrary: d) (simp_all add: farm_inv_apply_operation)

lemma farm_inv_empty_farm: "farm_inv thr (empty_farm ps)"
  by (simp add: farm_inv_def ledger_ok_def materials_ok_def unresolved_keys_def empty_farm_def)

section \<open>Claims\<close>

subsection \<open>C1: printer exclusivity\<close>

text \<open>
  C1 states that in every state reachable through the coordinator operations a printer
  is \<open>printing\<close> iff exactly one printing job references it. The state reached by
  creating J1 and J2 on printer 1, starting J1 and completing the queued J2 has exactly
  one printing job on printer 1 (J1) while the printer is \<open>idle\<close>: \<open>complete_job\<close> frees
  the printer without looking at the status of the job it completes.
\<close>

theorem exclusivity_broken_by_complete_job:
  "map_option printer_status (printers after_complete_queued 1) = Some ''idle''
   \<and> map job_id (printing_jobs_on after_complete_queued 1) = [''J1'']"
  by (simp add: after_complete_queued_def printing_jobs_on_def service_defs example_defs)

subsection \<open>C2: the precondition of complete_job\<close>

text \<open>
  C2 states that \<open>complete_job\<close> fails on a job that is not printing and changes
  nothing. Evaluated on the queued job J2 of \<open>busy_farm\<close>, \<open>complete_job\<close> returns
  \<open>True\<close>, marks J2 completed and sets printer 1, on which J1 is still printing, to idle.
\<close>

theorem complete_job_on_queued_job:
  "get_job busy_farm ''J2'' = Some (new_job 2 ''J2'' 1 ''queued'')
   \<and> fst (complete_job (15 / 100) 10 ''J2'' True busy_farm) = True
   \<and> map status (jobs (snd (complete_job (15 / 100) 10 ''J2'' True busy_farm)))
       = [''printing'', ''completed'']
   \<and> map_option printer_status (printers (snd (complete_job (15 / 100) 10 ''J2'' True busy_farm)) 1)
       = Some ''idle''"
  by (simp add: service_defs example_defs)

subsection \<open>C4: start_job and printer availability\<close>

text \<open>
  C4 states that \<open>start_job\<close> succeeds only on a printer that is idle and active.
  Evaluated on a queued job whose printer is in status \<open>error\<close>, \<open>start_job\<close>
  succeeds and sets both the job and the printer to \<open>printing\<close>: the only printer
  status it refuses is \<open>printing\<close>.
\<close>

theorem start_job_on_faulted_printer:
  "map_option printer_status (printers faulted_farm 1) = Some ''error''
   \<and> fst (start_job 10 ''J1'' faulted_farm) = Inr ()
   \<and> map status (jobs (snd (start_job 10 ''J1'' faulted_farm))) = [''printing'']
   \<and> map_option printer_status (printers (snd (start_job 10 ''J1'' faulted_farm)) 1)
       = Some ''printing''"
  by (simp add: service_defs example_defs)

subsection \<open>C9: actual duration in minutes\<close>

text \<open>
  C9 as stated (the duration in minutes is rounded to the nearest integer, 90 seconds
  giving 2) fails: a job started at time 0 and completed 90 seconds later gets
  \<open>actual_time_min = 1\<close>, where rounding to the nearest integer gives 2.
\<close>

theorem complete_job_rounding_counterexample:
  "map actual_time_min (jobs (snd (complete_job (15 / 100) 90000000 ''J1'' True printing_farm)))
     = [Some 1]
   \<and> round (real_of_int (90000000 - 0) / 60000000) = (2 :: int)"
  by (simp add: service_defs example_defs round_def)

text \<open>
  C9, amended: when \<open>complete_job\<close> runs on a job with a start time (and the spool
  update does not abort the transaction), \<open>actual_time_min\<close> is the duration
  \<open>now - start_time\<close> in minutes truncated towards zero: the floor for a non-negative
  duration, the ceiling for a negative one.
\<close>

theorem complete_job_truncates_minutes:
  assumes "get_job d jid = Some job" and "start_time job = Some st"
    and "spool_capacity_ok d job"
  shows "\<exists>job'. get_job (snd (complete_job thr now jid success d)) jid = Some job'
           \<and> actual_time_min job' =
               Some (if st \<le> now then \<lfloor>real_of_int (now - st) / 60000000\<rfloor>
                     else \<lceil>real_of_int (now - st) / 60000000\<rceil>)"
proof -
  let ?f = "\<lambda>j. j\<lparr>status := (if success then ''completed'' else ''failed''),
                   end_time := Some now,
                   actual_time_min :=
                     (case start_time j of
                        None \<Rightarrow> actual_time_min j
                      | Some st \<Rightarrow> Some (int_trunc_div (now - st) 60000000))\<rparr>"
  let ?w2 = "set_printer_status (printer_id job) ''idle'' (d\<lparr>jobs := upd_job jid ?f (jobs d)\<rparr>)"
  have found: "find (\<lambda>j. job_id j = jid) (jobs d) = Some job"
    using assms(1) by (simp add: get_job_def)
  have w2: "get_job ?w2 jid = Some (?f job)"
    by (simp add: get_job_def find_upd_job found)
  have keep: "jobs (snd (complete_job thr now jid success d)) = jobs ?w2"
  proof (cases "truthy_str (spool_id job)")
    case None
    then show ?thesis using assms(1) by (simp add: complete_job_def commit_def Let_def)
  next
    case (Some sid)
    note sid = this
    show ?thesis
    proof (cases "spools d sid")
      case None
      then have "spools ?w2 sid = None" by simp
      then show ?thesis using assms(1) sid
        by (simp add: complete_job_def commit_def Let_def update_spool_usage_missing
              split: option.splits)
    next
      case (Some sp)
      then have sp: "spools ?w2 sid = Some sp" by simp
      have nz: "total_weight_g sp \<noteq> 0"
        using assms(3) sid Some by (simp add: spool_capacity_ok_def)
      show ?thesis
      proof (cases "success \<and> (\<exists>m. truthy_real (material_g job) = Some m
                       \<and> max 0 (m - or_zero (progress_percentage job) / 100 * m) > 0)")
        case False
        then show ?thesis using assms(1) sid
          by (auto simp: complete_job_def commit_def Let_def split: option.splits)
      next
        case True
        then obtain m where m: "truthy_real (material_g job) = Some m"
          and pos: "max 0 (m - or_zero (progress_percentage job) / 100 * m) > 0" by blast
        obtain w' where
          "update_spool_usage thr sid (max 0 (m - or_zero (progress_percentage job) / 100 * m))
             (d, ?w2) = (True, (w', w'))" and "jobs w' = jobs ?w2"
          using update_spool_usage_ok [OF sp nz] by blast
        then show ?thesis using assms(1) sid m pos True
          by (simp add: complete_job_def commit_def Let_def)
      qed
    qed
  qed
  have "get_job (snd (complete_job thr now jid success d)) jid = Some (?f job)"
    using w2 keep by (simp add: get_job_def)
  moreover have "actual_time_min (?f job) =
      Some (if st \<le> now then \<lfloor>real_of_int (now - st) / 60000000\<rfloor>
            else \<lceil>real_of_int (now - st) / 60000000\<rceil>)"
    using assms(2) int_trunc_div_real [of 60000000 "now - st"] by simp
  ultimately show ?thesis by blast
qed

text \<open>The amended C9 at a concrete job: 150 seconds give 2 minutes.\<close>

theorem complete_job_truncates_minutes_witness:
  "get_job printing_farm ''J1'' = Some printing_job \<and> start_time printing_job = Some 0
   \<and> spool_capacity_ok printing_farm printing_job
   \<and> (\<exists>job'. get_job (snd (complete_job (15 / 100) 150000000 ''J1'' True printing_farm)) ''J1''
                = Some job' \<and> actual_time_min job' = Some 2)"
proof -
  have a: "get_job printing_farm ''J1'' = Some printing_job"
    by (simp add: get_job_def example_defs)
  have b: "start_time printing_job = Some 0" by (simp add: example_defs)
  have c: "spool_capacity_ok printing_farm printing_job"
    by (simp add: spool_capacity_ok_def truthy_str_def example_defs)
  show ?thesis
    using complete_job_truncates_minutes [OF a b c, of "15 / 100" 150000000 True] a b c
    by simp
qed

subsection \<open>C5: spool accounting bounds\<close>

text \<open>
  C5 as stated (for every existing spool and every consumption of \<open>g \<ge> 0\<close> grams the
  remaining weight afterwards lies in \<open>[0, total]\<close> and has not increased) fails on a
  spool that is outside that bound before the call. A spool created with total weight -5
  starts with remaining weight -5; a usage of 1 g floors the remaining weight at 0, which
  is above the total and above the value before. A spool of 1000 g refilled to 1500 g by
  a negative usage still holds 1400 g, more than its total, after a usage of 100 g.
\<close>

theorem update_spool_usage_bounds_counterexample:
  "map_option remaining_weight_g (spools undersized_farm ''S'') = Some (- 5)
   \<and> fst (update_spool_usage (15 / 100) ''S'' 1 (undersized_farm, undersized_farm)) = True
   \<and> map_option remaining_weight_g
         (spools (snd (snd (update_spool_usage (15 / 100) ''S'' 1
                              (undersized_farm, undersized_farm)))) ''S'') = Some 0
   \<and> map_option total_weight_g
         (spools (snd (snd (update_spool_usage (15 / 100) ''S'' 1
                              (undersized_farm, undersized_farm)))) ''S'') = Some (- 5)
   \<and> \<not> ((0 :: real) \<le> - 5)
   \<and> map_option remaining_weight_g
         (spools (snd (snd (update_spool_usage (15 / 100) ''S'' 100
                              (refilled_farm, refilled_farm)))) ''S'') = Some 1400
   \<and> map_option total_weight_g
         (spools (snd (snd (update_spool_usage (15 / 100) ''S'' 100
                              (refilled_farm, refilled_farm)))) ''S'') = Some 1000
   \<and> \<not> ((1400 :: real) \<le> 1000)"
  by (simp add: undersized_farm_def refilled_farm_def service_defs example_defs)

text \<open>
  C5, amended: for an existing spool that is within the data-model bound
  \<open>0 \<le> remaining \<le> total\<close> before the call and a consumption of \<open>g \<ge> 0\<close> grams,
  \<open>update_spool_usage\<close> leaves the session committed, keeps the total weight, keeps the
  spool within the bound, does not increase the remaining weight and touches no other
  spool. When the total weight is not zero the call succeeds, the remaining weight is the
  old one less \<open>g\<close>, floored at 0, and \<open>usage_percentage\<close> is
  \<open>(total - remaining) / total\<close> of the values just written. (A spool of total weight
  zero makes the call abort and roll back.)
\<close>

theorem update_spool_usage_within_capacity:
  assumes "spools d sid = Some sp" and "within_capacity sp" and "0 \<le> g"
  shows "case update_spool_usage thr sid g (d, d) of
           (ok, c', w') \<Rightarrow>
             c' = w'
             \<and> (\<exists>sp'. spools w' sid = Some sp'
                   \<and> total_weight_g sp' = total_weight_g sp
                   \<and> within_capacity sp'
                   \<and> remaining_weight_g sp' \<le> remaining_weight_g sp
                   \<and> (total_weight_g sp \<noteq> 0 \<longrightarrow>
                        ok \<and> remaining_weight_g sp' = max 0 (remaining_weight_g sp - g)
                        \<and> usage_percentage sp' =
                            (total_weight_g sp' - remaining_weight_g sp') / total_weight_g sp'))
             \<and> (\<forall>s. s \<noteq> sid \<longrightarrow> spools w' s = spools d s)"
proof (cases "total_weight_g sp = 0")
  case True
  then show ?thesis
    using assms by (simp add: update_spool_usage_zero_total)
next
  case False
  obtain w' where w': "update_spool_usage thr sid g (d, d) = (True, (w', w'))"
    and sp': "spools w' = (spools d)(sid \<mapsto>
                sp\<lparr>remaining_weight_g := max 0 (remaining_weight_g sp - g),
                   usage_percentage :=
                     (total_weight_g sp - max 0 (remaining_weight_g sp - g)) / total_weight_g sp,
                   is_low_inventory :=
                     (max 0 (remaining_weight_g sp - g) / total_weight_g sp \<le> thr)\<rparr>)"
    using update_spool_usage_ok [OF assms(1) False] by blast
  show ?thesis
    using assms(2,3) False by (simp add: w' sp' within_capacity_def)
qed

text \<open>The amended C5 at a concrete spool: 450 g taken from a full 1000 g spool.\<close>

theorem update_spool_usage_within_capacity_witness:
  "spools printing_farm ''S'' = Some (full_spool 1000) \<and> within_capacity (full_spool 1000)
   \<and> (0::real) \<le> 450
   \<and> (case update_spool_usage (15 / 100) ''S'' 450 (printing_farm, printing_farm) of
         (ok, c', w') \<Rightarrow>
           ok \<and> c' = w'
           \<and> map_option remaining_weight_g (spools w' ''S'') = Some 550
           \<and> map_option usage_percentage (spools w' ''S'') = Some (45 / 100))"
proof -
  have a: "spools printing_farm ''S'' = Some (full_spool 1000)" by (simp add: example_defs)
  have b: "within_capacity (full_spool 1000)" by (simp add: within_capacity_def example_defs)
  have c: "(0::real) \<le> 450" by simp
  show ?thesis
    using update_spool_usage_within_capacity [OF a b c, of "15 / 100"] a b
    by (auto simp: full_spool_def split: prod.splits)
qed

subsection \<open>C8: progress is clamped and always stored\<close>

text \<open>
  C8: for every existing job and every input value, \<open>update_job_progress\<close> succeeds and
  stores the input clamped to \<open>[0, 100]\<close>, and the layer when one is given, whatever the
  sign of the difference to the progress stored before; when that difference is not
  positive no spool and no alert is touched.
\<close>

theorem update_job_progress_clamps:
  assumes "get_job d jid = Some job"
  shows "fst (update_job_progress thr jid p layer d) = True
     \<and> (\<exists>job' v. get_job (snd (update_job_progress thr jid p layer d)) jid = Some job'
           \<and> progress_percentage job' = Some v
           \<and> v = (if p < 0 then 0 else if 100 < p then 100 else p)
           \<and> 0 \<le> v \<and> v \<le> 100
           \<and> current_layer job' = (case layer of None \<Rightarrow> current_layer job | Some l \<Rightarrow> Some l)
           \<and> (v - or_zero (progress_percentage job) \<le> 0 \<longrightarrow>
                spools (snd (update_job_progress thr jid p layer d)) = spools d
                \<and> alerts (snd (update_job_progress thr jid p layer d)) = alerts d))"
proof -
  have v: "max 0 (min 100 p) = (if p < 0 then 0 else if 100 < p then 100 else p)"
    by (simp add: max_def min_def)
  show ?thesis
    using update_job_progress_jobs(1) [OF assms] update_job_progress_get_job [OF assms, of thr p layer]
      update_job_progress_no_delta [OF assms, of p thr layer]
    by (auto simp: v)
qed

text \<open>C8 at a concrete job: the input -5 is stored as 0, with layer 3, and spool S is untouched.\<close>

theorem update_job_progress_clamps_witness:
  "get_job printing_farm ''J1'' = Some printing_job
   \<and> fst (update_job_progress (15 / 100) ''J1'' (- 5) (Some 3) printing_farm) = True
   \<and> (\<exists>job'. get_job (snd (update_job_progress (15 / 100) ''J1'' (- 5) (Some 3) printing_farm)) ''J1''
                = Some job'
              \<and> progress_percentage job' = Some 0 \<and> current_layer job' = Some 3)
   \<and> spools (snd (update_job_progress (15 / 100) ''J1'' (- 5) (Some 3) printing_farm))
       = spools printing_farm"
proof -
  have a: "get_job printing_farm ''J1'' = Some printing_job"
    by (simp add: get_job_def example_defs)
  have b: "or_zero (progress_percentage printing_job) = 0"
    by (simp add: or_zero_def example_defs)
  show ?thesis
    using update_job_progress_clamps [OF a, of "15 / 100" "- 5" "Some 3"] a b by auto
qed

subsection \<open>C10: update_job_progress has no job-state precondition\<close>

text \<open>
  C10: for every existing job, whatever its status, \<open>update_job_progress\<close> succeeds,
  leaves the status as it is and stores the clamped progress and the layer; when the
  progress difference is positive and the job has a spool code and a material requirement,
  the spool (if it exists with a total weight other than zero) loses
  \<open>material_g * delta / 100\<close> grams, floored at 0.
\<close>

theorem update_job_progress_any_status:
  assumes "get_job d jid = Some job"
  shows "fst (update_job_progress thr jid p layer d) = True
     \<and> (\<exists>job'. get_job (snd (update_job_progress thr jid p layer d)) jid = Some job'
           \<and> status job' = status job
           \<and> progress_percentage job' = Some (max 0 (min 100 p))
           \<and> current_layer job' = (case layer of None \<Rightarrow> current_layer job | Some l \<Rightarrow> Some l))
     \<and> (\<forall>sid m sp.
           0 < max 0 (min 100 p) - or_zero (progress_percentage job)
           \<longrightarrow> truthy_str (spool_id job) = Some sid
           \<longrightarrow> truthy_real (material_g job) = Some m
           \<longrightarrow> spools d sid = Some sp
           \<longrightarrow> total_weight_g sp \<noteq> 0
           \<longrightarrow> (\<exists>sp'. spools (snd (update_job_progress thr jid p layer d)) sid = Some sp'
                  \<and> remaining_weight_g sp' =
                      max 0 (remaining_weight_g sp
                             - m * ((max 0 (min 100 p) - or_zero (progress_percentage job)) / 100))))"
proof -
  have "\<exists>sp'. spools (snd (update_job_progress thr jid p layer d)) sid = Some sp'
           \<and> remaining_weight_g sp' =
               max 0 (remaining_weight_g sp
                      - m * ((max 0 (min 100 p) - or_zero (progress_percentage job)) / 100))"
    if "0 < max 0 (min 100 p) - or_zero (progress_percentage job)"
      and "truthy_str (spool_id job) = Some sid" and "truthy_real (material_g job) = Some m"
      and "spools d sid = Some sp" and "total_weight_g sp \<noteq> 0" for sid m sp
    using update_job_progress_spool [OF assms that, of thr layer] by blast
  then show ?thesis
    using update_job_progress_jobs(1) [OF assms] update_job_progress_get_job [OF assms, of thr p layer]
    by simp
qed

text \<open>
  C10 at a job that has already completed: reporting 100 percent succeeds and takes
  another 450 g from its spool.
\<close>

theorem update_job_progress_any_status_witness:
  "get_job finished_farm ''J1'' = Some finished_job \<and> status finished_job = ''completed''
   \<and> fst (update_job_progress (15 / 100) ''J1'' 100 None finished_farm) = True
   \<and> (\<exists>sp'. spools (snd (update_job_progress (15 / 100) ''J1'' 100 None finished_farm)) ''S''
                = Some sp' \<and> remaining_weight_g sp' = 550)"
proof -
  have a: "get_job finished_farm ''J1'' = Some finished_job"
    by (simp add: get_job_def example_defs)
  have b: "or_zero (progress_percentage finished_job) = 50"
    "truthy_str (spool_id finished_job) = Some ''S''"
    "truthy_real (material_g finished_job) = Some 900"
    "status finished_job = ''completed''"
    by (simp_all add: or_zero_def truthy_str_def truthy_real_def example_defs)
  have c: "spools finished_farm ''S'' = Some (full_spool 1000)" by (simp add: example_defs)
  show ?thesis
    using update_job_progress_any_status [OF a, of "15 / 100" 100 None] a b c
    by (auto simp: full_spool_def)
qed

subsection \<open>C7: the failure-monitor protocol\<close>

text \<open>
  C7: for an existing job and a non-empty list of scores with confidences in \<open>[0, 1]\<close>,
  \<open>detect_failure_from_image\<close> changes the database iff the maximum confidence is
  strictly above the threshold. When it is, the call returns a failure event that carries
  that maximum confidence and is appended to the failure events, the job is \<open>failed\<close>,
  its printer (if it exists) is in status \<open>error\<close> and its spool (if it names an
  existing one) is inactive. When it is not, the call returns \<open>None\<close> and the database is
  unchanged.
\<close>

theorem detect_failure_from_image_protocol:
  assumes "get_job d jid = Some job" and "results \<noteq> []"
    and "\<forall>r \<in> set results. 0 \<le> snd r \<and> snd r \<le> 1"
  shows "case detect_failure_from_image alert_threshold threshold now jid path (Scores results) d of
           (ev, d') \<Rightarrow>
             (d' \<noteq> d) = (threshold < Max (snd ` set results))
             \<and> (threshold < Max (snd ` set results) \<longrightarrow>
                  (\<exists>e. ev = Some e \<and> confidence_score e = Max (snd ` set results)
                        \<and> fe_job_id e = job_pk job
                        \<and> failure_events d' = failure_events d @ [e])
                  \<and> (\<exists>job'. get_job d' jid = Some job' \<and> status job' = ''failed'')
                  \<and> (\<forall>pr. printers d (printer_id job) = Some pr \<longrightarrow>
                        map_option printer_status (printers d' (printer_id job)) = Some ''error'')
                  \<and> (\<forall>sid sp. truthy_str (spool_id job) = Some sid \<longrightarrow> spools d sid = Some sp \<longrightarrow>
                        map_option spool_is_active (spools d' sid) = Some False))
             \<and> (\<not> threshold < Max (snd ` set results) \<longrightarrow> ev = None \<and> d' = d)"
proof -
  let ?best = "Max (snd ` set results)"
  have nonneg: "\<forall>r \<in> set results. 0 \<le> snd r" using assms(3) by blast
  obtain ft where df:
    "detect_failure threshold (Scores results) = (threshold < ?best, ?best, ft)"
    using detect_failure_scores [OF assms(2) nonneg] by blast
  show ?thesis
  proof (cases "threshold < ?best")
    case False
    then show ?thesis using assms(1) by (simp add: detect_failure_from_image_def df)
  next
    case True
    let ?e = "\<lparr>fe_job_id = job_pk job, failure_type = ft, confidence_score = ?best,
               image_path = path\<rparr>"
    have df': "detect_failure threshold (Scores results) = (True, ?best, ft)"
      using df True by simp
    have found: "find (\<lambda>j. job_id j = jid) (jobs d) = Some job"
      using assms(1) by (simp add: get_job_def)
    obtain w where wj: "jobs w = jobs d" and wp: "printers w = printers d"
      and we: "failure_events w = failure_events d"
      and ws: "\<And>s sp. spools d s = Some sp \<Longrightarrow> \<exists>sp'. spools w s = Some sp'"
      and res: "detect_failure_from_image alert_threshold threshold now jid path (Scores results) d =
               (let event = ?e;
                    w1 = w\<lparr>failure_events := failure_events w @ [event]\<rparr>;
                    w2 = w1\<lparr>jobs := upd_job jid
                            (\<lambda>j. j\<lparr>status := ''failed'', end_time := Some now\<rparr>) (jobs w1)\<rparr>;
                    w3 = set_printer_status (printer_id job) ''error'' w2;
                    w4 = (case truthy_str (spool_id job) of
                            None \<Rightarrow> w3
                          | Some sid \<Rightarrow>
                              (case spools w3 sid of
                                 None \<Rightarrow> w3
                               | Some sp \<Rightarrow>
                                   w3\<lparr>spools := (spools w3)(sid \<mapsto> sp\<lparr>spool_is_active := False\<rparr>)\<rparr>))
                in (Some event, w4))"
      using detect_failure_from_image_positive [OF assms(1) df', of alert_threshold now path]
      by blast
    define w1 where "w1 = w\<lparr>failure_events := failure_events w @ [?e]\<rparr>"
    define w2 where "w2 = w1\<lparr>jobs := upd_job jid
                            (\<lambda>j. j\<lparr>status := ''failed'', end_time := Some now\<rparr>) (jobs w1)\<rparr>"
    define w3 where "w3 = set_printer_status (printer_id job) ''error'' w2"
    define d' where "d' = (case truthy_str (spool_id job) of
                            None \<Rightarrow> w3
                          | Some sid \<Rightarrow>
                              (case spools w3 sid of
                                 None \<Rightarrow> w3
                               | Some sp \<Rightarrow>
                                   w3\<lparr>spools := (spools w3)(sid \<mapsto> sp\<lparr>spool_is_active := False\<rparr>)\<rparr>))"
    have res': "detect_failure_from_image alert_threshold threshold now jid path (Scores results) d
                  = (Some ?e, d')"
      unfolding res d'_def w3_def w2_def w1_def Let_def by (rule refl)
    have w3_events: "failure_events w3 = failure_events d @ [?e]"
      by (simp add: w3_def w2_def w1_def we)
    have w3_jobs: "jobs w3 = upd_job jid (\<lambda>j. j\<lparr>status := ''failed'', end_time := Some now\<rparr>) (jobs d)"
      by (simp add: w3_def w2_def w1_def wj)
    have w3_spools: "spools w3 = spools w"
      by (simp add: w3_def w2_def w1_def)
    have w3_printer: "map_option printer_status (printers w3 (printer_id job)) = Some ''error''"
      if "printers d (printer_id job) = Some pr" for pr
      using that by (simp add: w3_def w2_def w1_def set_printer_status_def wp)
    have events: "failure_events d' = failure_events d @ [?e]"
      by (simp add: d'_def w3_events split: option.splits)
    have jobs': "jobs d' = jobs w3"
      by (simp add: d'_def split: option.splits)
    have printers': "printers d' = printers w3"
      by (simp add: d'_def split: option.splits)
    have job': "get_job d' jid = Some (job\<lparr>status := ''failed'', end_time := Some now\<rparr>)"
      by (simp add: get_job_def jobs' w3_jobs find_upd_job found)
    have spool: "map_option spool_is_active (spools d' sid) = Some False"
      if ts: "truthy_str (spool_id job) = Some sid" and sd: "spools d sid = Some sp" for sid sp
    proof -
      obtain sp' where "spools w3 sid = Some sp'"
        using ws [OF sd] w3_spools by auto
      then show ?thesis by (simp add: d'_def ts)
    qed
    have "d' \<noteq> d" using events by auto
    then show ?thesis
      using True events job' w3_printer spool
      by (auto simp: res' printers')
  qed
qed

text \<open>C7 at a printing job and four scores, the highest 0.9 above the threshold 0.7.\<close>

theorem detect_failure_from_image_protocol_witness:
  "get_job printing_farm ''J1'' = Some printing_job
   \<and> (case detect_failure_from_image (15 / 100) (7 / 10) 60000000 ''J1'' ''frame.jpg''
            (Scores [(''stringing'', 2 / 10), (''layer_separation'', 9 / 10),
                     (''warping'', 8 / 10), (''blob'', 0)]) printing_farm of
         (ev, d') \<Rightarrow>
           d' \<noteq> printing_farm
           \<and> map_option confidence_score ev = Some (9 / 10)
           \<and> map_option status (get_job d' ''J1'') = Some ''failed''
           \<and> map_option printer_status (printers d' 1) = Some ''error''
           \<and> map_option spool_is_active (spools d' ''S'') = Some False)"
proof -
  let ?results = "[(''stringing'', 2 / 10 :: real), (''layer_separation'', 9 / 10),
                   (''warping'', 8 / 10), (''blob'', 0)]"
  have a: "get_job printing_farm ''J1'' = Some printing_job"
    by (simp add: get_job_def example_defs)
  have b: "?results \<noteq> []" by simp
  have c: "\<forall>r \<in> set ?results. 0 \<le> snd r \<and> snd r \<le> 1" by simp
  have best: "Max (snd ` set ?results) = 9 / 10" by simp
  have sp: "truthy_str (spool_id printing_job) = Some ''S''"
    "spools printing_farm ''S'' = Some (full_spool 1000)"
    "printers printing_farm 1
       = Some \<lparr>printer_status = ''printing'', printer_is_active = True\<rparr>"
    "printer_id printing_job = 1"
    by (simp_all add: truthy_str_def example_defs)
  define r where "r = detect_failure_from_image (15 / 100) (7 / 10) 60000000 ''J1'' ''frame.jpg''
       (Scores ?results) printing_farm"
  obtain ev d' where res: "r = (ev, d')" by (cases r)
  have "d' \<noteq> printing_farm
           \<and> map_option confidence_score ev = Some (9 / 10)
           \<and> map_option status (get_job d' ''J1'') = Some ''failed''
           \<and> map_option printer_status (printers d' 1) = Some ''error''
           \<and> map_option spool_is_active (spools d' ''S'') = Some False"
    using detect_failure_from_image_protocol
            [where alert_threshold = "15 / 100" and threshold = "7 / 10" and now = 60000000
               and path = "''frame.jpg''", OF a b c, folded r_def] sp
    by (auto simp: res)
  then show ?thesis using a unfolding r_def [symmetric] by (simp add: res)
qed

subsection \<open>C3: material conservation\<close>




subsection \<open>C6: alert deduplication\<close>

text \<open>
  C6 as stated (in every reachable state each pair of spool code and alert type has at
  most one unresolved alert, and every alert-creating path keeps it so) fails:
  \<open>update_spool_usage\<close> accepts a negative amount, which raises the remaining weight and
  clears the low-inventory flag while the first \<open>low_inventory\<close> alert is still
  unresolved; the next consumption sets the flag again and inserts a second unresolved
  \<open>low_inventory\<close> alert for the same spool, because that path looks at the flag and not
  at the alerts.
\<close>

theorem alerts_duplicated_counterexample:
  "unresolved_keys (alerts (fold (apply_operation (15 / 100) (7 / 10)) refill_calls
                             (empty_farm (printers farm0))))
     = [(''S'', ''low_inventory''), (''S'', ''low_inventory'')]
   \<and> \<not> deduplicated (fold (apply_operation (15 / 100) (7 / 10)) refill_calls
                        (empty_farm (printers farm0)))"
  by (simp add: refill_calls_def deduplicated_def unresolved_keys_def service_defs example_defs)

text \<open>
  C6, amended: starting from a farm without spools, jobs and alerts, after every sequence
  of service calls in which material is consumed in non-negative amounts (spool usage is
  reported with \<open>grams \<ge> 0\<close> and no job declares a negative material requirement),
  each pair of spool code and alert type has at most one unresolved alert; and
  \<open>ensure_alert\<close> changes nothing whenever an unresolved alert of the same pair exists.
\<close>

theorem alerts_deduplicated:
  assumes "list_all non_negative_amounts ops"
  shows "deduplicated (fold (apply_operation alert_threshold threshold) ops (empty_farm ps))
     \<and> ((sid, ty) \<in> set (unresolved_keys (alerts w)) \<longrightarrow> ensure_alert sid ty t c w = w)"
proof -
  have "farm_inv alert_threshold
          (fold (apply_operation alert_threshold threshold) ops (empty_farm ps))"
    by (rule farm_inv_fold_operations [OF farm_inv_empty_farm assms])
  then have "deduplicated (fold (apply_operation alert_threshold threshold) ops (empty_farm ps))"
    by (simp add: farm_inv_def ledger_ok_def deduplicated_def)
  moreover have "ensure_alert sid ty t c w = w"
    if "(sid, ty) \<in> set (unresolved_keys (alerts w))"
  proof -
    have "find (\<lambda>a. alert_spool_id a = sid \<and> alert_type a = ty \<and> \<not> is_resolved a) (alerts w)
            \<noteq> None"
      using that by (simp add: find_unresolved_None)
    then show ?thesis by (auto simp: ensure_alert_def)
  qed
  ultimately show ?thesis by blast
qed

text \<open>
  The amended C6 at a concrete run: the job that the spool cannot cover is started twice
  and the \<open>insufficient_material\<close> alert exists once.
\<close>

theorem alerts_deduplicated_witness:
  "list_all non_negative_amounts low_stock_calls
   \<and> deduplicated (fold (apply_operation (15 / 100) (7 / 10)) low_stock_calls
                     (empty_farm (printers farm0)))
   \<and> unresolved_keys (alerts (fold (apply_operation (15 / 100) (7 / 10)) low_stock_calls
                                 (empty_farm (printers farm0))))
       = [(''S'', ''low_inventory''), (''S'', ''insufficient_material'')]"
proof -
  have a: "list_all non_negative_amounts low_stock_calls"
    by (simp add: low_stock_calls_def)
  have b: "unresolved_keys (alerts (fold (apply_operation (15 / 100) (7 / 10)) low_stock_calls
                                 (empty_farm (printers farm0))))
       = [(''S'', ''low_inventory''), (''S'', ''insufficient_material'')]"
    by (simp add: low_stock_calls_def unresolved_keys_def service_defs example_defs)
  show ?thesis
    using alerts_deduplicated [OF a, of "15 / 100" "7 / 10" "printers farm0"] a b by simp
qed

end
